theory Spec2Isabelle
  imports Main "HOL-Library.Word"
begin

unbundle bit_operations_syntax

section \<open>Machine integers and packet bytes\<close>

type_synonym u8 = "8 word"
type_synonym u16 = "16 word"
type_synonym u32 = "32 word"
type_synonym u64 = "64 word"

text \<open>
  A packet is the list of bytes between \<open>data\<close> and \<open>data_end\<close>; a test
  \<open>data + n > data_end\<close> of the source is \<open>n > length pkt\<close>. Multi-byte header fields
  are read as the little-endian eBPF target reads them from packet memory; the sources
  define \<open>htons\<close>/\<open>ntohs\<close> as \<open>__builtin_bswap16\<close>.
\<close>

definition load16 :: "u8 list \<Rightarrow> nat \<Rightarrow> u16" where
  "load16 p off = ucast (p ! off) OR push_bit 8 (ucast (p ! (off + 1)))"

definition load32 :: "u8 list \<Rightarrow> nat \<Rightarrow> u32" where
  "load32 p off = ucast (p ! off) OR push_bit 8 (ucast (p ! (off + 1)))
                  OR push_bit 16 (ucast (p ! (off + 2))) OR push_bit 24 (ucast (p ! (off + 3)))"

definition bswap16 :: "u16 \<Rightarrow> u16" where
  "bswap16 x = push_bit 8 x OR drop_bit 8 x"

abbreviation (input) htons :: "u16 \<Rightarrow> u16" where "htons \<equiv> bswap16"
abbreviation (input) ntohs :: "u16 \<Rightarrow> u16" where "ntohs \<equiv> bswap16"

text \<open>A big-endian 16-bit value assembled from two bytes, \<open>(hi << 8) | lo\<close>.\<close>

definition be16 :: "u8 \<Rightarrow> u8 \<Rightarrow> u16" where
  "be16 hi lo = push_bit 8 (ucast hi) OR ucast lo"

abbreviation (input) ETH_P_IP :: u16 where "ETH_P_IP \<equiv> 0x0800"
abbreviation (input) IPPROTO_TCP :: u8 where "IPPROTO_TCP \<equiv> 6"
abbreviation (input) IPPROTO_UDP :: u8 where "IPPROTO_UDP \<equiv> 17"
abbreviation (input) DNS_PORT :: u16 where "DNS_PORT \<equiv> 53"

text \<open>Header fields, at their offsets in an Ethernet frame carrying IPv4.\<close>

definition eth_h_proto :: "u8 list \<Rightarrow> u16" where "eth_h_proto p = load16 p 12"
definition ip_ihl :: "u8 list \<Rightarrow> u8" where "ip_ihl p = (p ! 14) AND 0x0f"
definition ip_tot_len :: "u8 list \<Rightarrow> u16" where "ip_tot_len p = load16 p 16"
definition ip_frag_off :: "u8 list \<Rightarrow> u16" where "ip_frag_off p = load16 p 20"
definition ip_protocol :: "u8 list \<Rightarrow> u8" where "ip_protocol p = p ! 23"
definition ip_saddr :: "u8 list \<Rightarrow> u32" where "ip_saddr p = load32 p 26"
definition ip_daddr :: "u8 list \<Rightarrow> u32" where "ip_daddr p = load32 p 30"

text \<open>
  The IPv4 fragmentation fields in the words of the protocol: the 16 bits at bytes 20 and
  21 of the frame, most significant byte first, hold the more-fragments flag (0x2000) and
  the 13-bit fragment offset.
\<close>

definition ip_fragment_offset :: "u8 list \<Rightarrow> u16" where
  "ip_fragment_offset p = be16 (p ! 20) (p ! 21) AND 0x1fff"

definition ip_more_fragments :: "u8 list \<Rightarrow> bool" where
  "ip_more_fragments p = (be16 (p ! 20) (p ! 21) AND 0x2000 \<noteq> 0)"

section \<open>Kernel map helpers\<close>

text \<open>
  A BPF hash map is a partial function from keys to values. \<open>bpf_map_update_elem\<close>
  returns 0 on success and a negative error otherwise: with \<open>BPF_NOEXIST\<close> it fails when
  the key is present, with \<open>BPF_EXIST\<close> when it is absent. The helpers belong to the
  kernel, not to this repository; capacity exhaustion and LRU eviction are outside this
  model. An array map of \<open>n\<close> slots is a total function whose lookup yields \<open>None\<close>
  for an index of \<open>n\<close> or more.
\<close>

abbreviation (input) BPF_ANY :: nat where "BPF_ANY \<equiv> 0"
abbreviation (input) BPF_NOEXIST :: nat where "BPF_NOEXIST \<equiv> 1"
abbreviation (input) BPF_EXIST :: nat where "BPF_EXIST \<equiv> 2"

definition bpf_map_update_elem :: "('k \<rightharpoonup> 'v) \<Rightarrow> 'k \<Rightarrow> 'v \<Rightarrow> nat \<Rightarrow> int \<times> ('k \<rightharpoonup> 'v)" where
  "bpf_map_update_elem m k v flags =
     (if flags = BPF_NOEXIST \<and> m k \<noteq> None then (- 17, m)
      else if flags = BPF_EXIST \<and> m k = None then (- 2, m)
      else (0, m(k \<mapsto> v)))"

definition bpf_map_delete_elem :: "('k \<rightharpoonup> 'v) \<Rightarrow> 'k \<Rightarrow> ('k \<rightharpoonup> 'v)" where
  "bpf_map_delete_elem m k = m(k := None)"

definition array_lookup :: "nat \<Rightarrow> (u32 \<Rightarrow> 'v) \<Rightarrow> u32 \<Rightarrow> 'v option" where
  "array_lookup n a i = (if unat i < n then Some (a i) else None)"

section \<open>DHCP option scanning (dhcp\_socket.c)\<close>

text \<open>
  \<open>parse_dhcp_options(data, data_len, pos, option_type, option_value, max_len)\<close>.
  The buffer \<open>data\<close> is the list of its \<open>data_len\<close> valid bytes, so \<open>data_len\<close> is
  \<open>length data\<close>. The cursor \<open>*pos\<close> is passed in and returned. The result is
  (return value, final \<open>*pos\<close>, bytes copied to \<open>option_value\<close>); the third component is
  \<open>None\<close> when \<open>option_value\<close> is left untouched.
\<close>

function parse_dhcp_options ::
  "u8 list \<Rightarrow> nat \<Rightarrow> u8 \<Rightarrow> int \<Rightarrow> int \<times> nat \<times> u8 list option" where
  "parse_dhcp_options data pos option_type max_len =
     (if pos + 2 \<le> length data then
        (let opt = data ! pos;
             opt_len = data ! (pos + 1);
             pos1 = pos + 2
         in if opt = 255 then (- 1, pos1, None)
            else if opt = option_type then
              (let opt_len' = (if uint opt_len > max_len then word_of_int max_len else opt_len)
               in if pos1 + unat opt_len' \<le> length data
                  then (uint opt_len', pos1, Some (take (unat opt_len') (drop pos1 data)))
                  else parse_dhcp_options data (pos1 + unat opt_len') option_type max_len)
            else parse_dhcp_options data (pos1 + unat opt_len) option_type max_len)
      else (- 1, pos, None))"
  by pat_completeness auto
termination
  by (relation "measure (\<lambda>(data, pos, option_type, max_len). length data + 2 - pos)") auto

section \<open>DNS name decompression (include/common.h)\<close>

text \<open>
  The character filter of \<open>parse_dns_name\<close>: bytes from \<open>' '\<close> to \<open>'~'\<close> are kept, every
  other byte becomes \<open>'?'\<close>. (For bytes above 0x7f the test fails whether \<open>char\<close> is
  signed or not.)
\<close>

definition dns_printable :: "u8 \<Rightarrow> u8" where
  "dns_printable c = (if 0x20 \<le> c \<and> c \<le> 0x7e then c else 0x3f)"

text \<open>The locals of \<open>parse_dns_name\<close> when it returns, with its return value.\<close>

record dns_name_result =
  dn_ret :: int
  dn_pos :: nat
  dn_name :: "u8 list"
  dn_jumps :: nat

text \<open>
  The \<open>while\<close> loop of \<open>parse_dns_name\<close> with its locals as arguments. \<open>name_len\<close> is
  \<open>length name\<close>. A \<open>return -1\<close> inside the loop leaves \<open>*pos\<close> as it stands; the normal
  exit writes \<open>original_pos\<close> back when a pointer was followed.
\<close>

function parse_dns_name_loop ::
  "u8 list \<Rightarrow> int \<Rightarrow> nat \<Rightarrow> u8 list \<Rightarrow> nat \<Rightarrow> bool \<Rightarrow> nat \<Rightarrow> dns_name_result" where
  "parse_dns_name_loop data name_max pos name original_pos jumped jumps =
     (if pos < length data \<and> int (length name) < name_max - 1 then
        (let len = data ! pos; pos1 = pos + 1
         in if len = 0 then
              \<lparr>dn_ret = int (length name),
               dn_pos = (if jumped then original_pos else pos1),
               dn_name = name, dn_jumps = jumps\<rparr>
            else if len AND 0xc0 = 0xc0 then
              (if pos1 \<ge> length data then
                 \<lparr>dn_ret = - 1, dn_pos = pos1, dn_name = name, dn_jumps = jumps\<rparr>
               else
                 (let original_pos' = (if \<not> jumped then pos1 + 1 else original_pos)
                  in if jumps > 5 then
                       \<lparr>dn_ret = - 1, dn_pos = pos1, dn_name = name, dn_jumps = jumps + 1\<rparr>
                     else
                       (let offset :: u16 = push_bit 8 (ucast (len AND 0x3f)) OR ucast (data ! pos1)
                        in parse_dns_name_loop data name_max (unat offset) name
                             original_pos' True (jumps + 1))))
            else if pos1 + unat len > length data then
              \<lparr>dn_ret = - 1, dn_pos = pos1, dn_name = name, dn_jumps = jumps\<rparr>
            else
              (let name1 = (if length name > 0 then name @ [0x2e] else name);
                   k = min (unat len) (nat (name_max - 1 - int (length name1)));
                   name2 = name1 @ map dns_printable (take k (drop pos1 data))
               in parse_dns_name_loop data name_max (pos1 + unat len) name2
                    original_pos jumped jumps))
      else
        \<lparr>dn_ret = int (length name),
         dn_pos = (if jumped then original_pos else pos),
         dn_name = name, dn_jumps = jumps\<rparr>)"
  by pat_completeness auto
termination
  by (relation "measures [\<lambda>(data, name_max, pos, name, original_pos, jumped, jumps). 6 - jumps,
                          \<lambda>(data, name_max, pos, name, original_pos, jumped, jumps). length data - pos]")
     auto

definition parse_dns_name :: "u8 list \<Rightarrow> nat \<Rightarrow> int \<Rightarrow> dns_name_result" where
  "parse_dns_name data pos name_max = parse_dns_name_loop data name_max pos [] pos False 0"


section \<open>The XDP program (xdp\_blocklist.c)\<close>

abbreviation (input) XDP_DROP :: nat where "XDP_DROP \<equiv> 1"
abbreviation (input) XDP_PASS :: nat where "XDP_PASS \<equiv> 2"
abbreviation (input) FLOW_TIMEOUT_NS :: u64 where "FLOW_TIMEOUT_NS \<equiv> 300000000000"
abbreviation (input) TRUSTED_FLOW_FLAG :: u16 where "TRUSTED_FLOW_FLAG \<equiv> 0x01"
abbreviation (input) RATE_LIMIT_WINDOW_NS :: u64 where "RATE_LIMIT_WINDOW_NS \<equiv> 1000000000"

text \<open>
  \<open>struct flow_key\<close> and \<open>struct flow_state\<close> as the XDP program initialises them
  (the \<open>ja3_hash\<close> and \<open>sni\<close> members of the state, which no program here reads or
  writes, are left out), \<open>struct statistics\<close> and \<open>struct event\<close>.
\<close>

record xdp_flow_key =
  xk_src_ip :: u32
  xk_dst_ip :: u32
  xk_src_port :: u16
  xk_dst_port :: u16
  xk_ip_proto :: u8

record xdp_flow_state =
  xs_verdict :: u8
  xs_qos_profile :: u8
  xs_flags :: u16
  xs_packet_count :: u64
  xs_byte_count :: u64
  xs_last_seen :: u64
  xs_created_at :: u64
  xs_expires_at :: u64

record statistics =
  packets_processed :: u64
  packets_dropped :: u64
  packets_passed :: u64
  bytes_processed :: u64
  blocked_ips :: u64
  blocked_dns :: u64
  flows_offloaded :: u64
  events_generated :: u64
  last_cleanup :: u64

record event =
  ev_type :: u32
  ev_timestamp :: u64
  ev_src_ip :: u32
  ev_dst_ip :: u32
  ev_src_port :: u16
  ev_dst_port :: u16
  ev_protocol :: u8
  ev_data_len :: u8
  ev_data :: "u8 list"

text \<open>
  The maps of the program: \<open>ip_blocklist\<close>, \<open>flow_map\<close>, this CPU's slot of the
  one-entry per-CPU array \<open>statistics\<close>, the array \<open>dns_bloom\<close> of 131072 bytes, and the
  records submitted to the ring buffer \<open>events\<close>.
\<close>

record xdp_maps =
  ip_blocklist :: "u32 \<rightharpoonup> u64"
  flow_map :: "xdp_flow_key \<rightharpoonup> xdp_flow_state"
  stats :: statistics
  dns_bloom :: "u32 \<Rightarrow> u8"
  events :: "event list"

text \<open>
  What the kernel supplies during one invocation: the value returned by each call of
  \<open>bpf_ktime_get_ns\<close> (named after its call site) and the outcome of
  \<open>bpf_ringbuf_reserve\<close>: \<open>None\<close> when the reservation fails, otherwise the reserved
  record with whatever its memory held before.
\<close>

record xdp_env =
  t_rate_limit :: u64
  t_created :: u64
  t_expires :: u64
  t_now :: u64
  t_event :: u64
  rb_slot :: "event option"

definition is_ip_blocked :: "(u32 \<rightharpoonup> u64) \<Rightarrow> u32 \<Rightarrow> bool" where
  "is_ip_blocked bl ip = (bl ip \<noteq> None)"

text \<open>
  \<open>is_domain_blocked\<close>: the hash runs over the first \<open>min len 64\<close> characters; a
  \<open>char\<close> is sign-extended when added to the 32-bit hash (clang's \<open>char\<close> is signed on
  the BPF target).
\<close>

definition domain_hash :: "u8 list \<Rightarrow> u32" where
  "domain_hash domain = fold (\<lambda>c hash. hash * 31 + scast c) (take 64 domain) 0"

definition is_domain_blocked :: "(u32 \<Rightarrow> u8) \<Rightarrow> u8 list \<Rightarrow> bool" where
  "is_domain_blocked bloom domain =
     (let hash = domain_hash domain;
          index = (hash mod (131072 * 8)) div 8;
          bit = hash mod 8
      in case array_lookup 131072 bloom index of
           None \<Rightarrow> False
         | Some filter_byte \<Rightarrow> (ucast filter_byte :: u32) AND push_bit (unat bit) 1 \<noteq> 0)"

definition update_statistics :: "u32 \<Rightarrow> u32 \<Rightarrow> u32 \<Rightarrow> xdp_maps \<Rightarrow> xdp_maps" where
  "update_statistics packets bytes dropped m =
     (let s = stats m;
          s1 = s\<lparr>packets_processed := packets_processed s + ucast packets,
                 bytes_processed := bytes_processed s + ucast bytes\<rparr>;
          s2 = (if dropped \<noteq> 0
                then s1\<lparr>packets_dropped := packets_dropped s1 + ucast dropped\<rparr>
                else s1\<lparr>packets_passed := packets_passed s1 + ucast packets\<rparr>)
      in m\<lparr>stats := s2\<rparr>)"

text \<open>
  \<open>send_event\<close>. \<open>data\<close> is \<open>None\<close> for a \<open>NULL\<close> pointer. When the reservation fails
  the function returns at once.
\<close>

definition send_event ::
  "xdp_env \<Rightarrow> u32 \<Rightarrow> u32 \<Rightarrow> u32 \<Rightarrow> u16 \<Rightarrow> u16 \<Rightarrow> u8 \<Rightarrow> u8 list option \<Rightarrow> u8
     \<Rightarrow> xdp_maps \<Rightarrow> xdp_maps" where
  "send_event env type src_ip dst_ip src_port dst_port protocol data data_len m =
     (case rb_slot env of
        None \<Rightarrow> m
      | Some e \<Rightarrow>
          (let n = (if data_len > 64 then 64 else unat data_len);
               e1 = e\<lparr>ev_type := type, ev_src_ip := src_ip, ev_dst_ip := dst_ip,
                      ev_src_port := src_port, ev_dst_port := dst_port,
                      ev_protocol := protocol, ev_data_len := data_len,
                      ev_timestamp := t_event env\<rparr>;
               e2 = (case data of
                       None \<Rightarrow> e1
                     | Some d \<Rightarrow> if data_len > 0
                                then e1\<lparr>ev_data := take n d @ drop n (ev_data e1)\<rparr>
                                else e1)
           in m\<lparr>events := events m @ [e2]\<rparr>))"

text \<open>
  \<open>get_or_create_flow\<close> returns the state it found or created (\<open>None\<close> for \<open>NULL\<close>)
  and the flow map. The pointer it returns refers to the map entry; the caller's writes
  through it are written back by \<open>xdp_flow_stage\<close>.
\<close>

definition get_or_create_flow ::
  "xdp_env \<Rightarrow> (xdp_flow_key \<rightharpoonup> xdp_flow_state) \<Rightarrow> xdp_flow_key
     \<Rightarrow> xdp_flow_state option \<times> (xdp_flow_key \<rightharpoonup> xdp_flow_state)" where
  "get_or_create_flow env fm key =
     (case fm key of
        Some state \<Rightarrow> (Some state, fm)
      | None \<Rightarrow>
          (let new_state = \<lparr>xs_verdict = of_nat XDP_PASS, xs_qos_profile = 0, xs_flags = 0,
                            xs_packet_count = 0, xs_byte_count = 0, xs_last_seen = 0,
                            xs_created_at = t_created env,
                            xs_expires_at = t_expires env + FLOW_TIMEOUT_NS\<rparr>;
               r = bpf_map_update_elem fm key new_state BPF_NOEXIST
           in if fst r = 0 then (snd r key, snd r) else (None, snd r)))"

definition rate_limit_check :: "u64 \<Rightarrow> (u32 \<rightharpoonup> u64) \<Rightarrow> u32 \<Rightarrow> int \<times> (u32 \<rightharpoonup> u64)" where
  "rate_limit_check now bl ip =
     (if (case bl ip of None \<Rightarrow> False | Some last_packet \<Rightarrow> now - last_packet < RATE_LIMIT_WINDOW_NS)
      then (0, bl)
      else (let r = bpf_map_update_elem bl ip now BPF_EXIST
            in if fst r \<noteq> 0 then (1, snd (bpf_map_update_elem (snd r) ip now BPF_NOEXIST))
               else (1, snd r)))"

text \<open>
  The name-extraction loop of the DNS blocking check. \<open>dns_data\<close> starts at byte 42 of
  the packet; \<open>domain_len\<close> is \<open>length domain\<close>.
\<close>

function xdp_dns_domain :: "u8 list \<Rightarrow> nat \<Rightarrow> u8 list \<Rightarrow> u8 list" where
  "xdp_dns_domain pkt pos domain =
     (if pos < 63 \<and> 42 + pos < length pkt then
        (let len = pkt ! (42 + pos)
         in if len = 0 then domain
            else if length domain + unat len + 1 > 63 then domain
            else
              (let domain1 = (if length domain > 0 then domain @ [0x2e] else domain);
                   idx = takeWhile (\<lambda>i. pos + i + 1 < 64 \<and> 42 + pos + i + 1 < length pkt)
                           [0 ..< unat len];
                   domain2 = domain1 @ map (\<lambda>i. pkt ! (42 + pos + i + 1)) idx
               in xdp_dns_domain pkt (pos + unat len + 1) domain2))
      else domain)"
  by pat_completeness auto
termination
  by (relation "measure (\<lambda>(pkt, pos, domain). 63 - pos)") auto

text \<open>
  The tail of \<open>xdp_blocklist_prog\<close> from "Get or create flow state" on: flow lookup or
  creation, counters, the offload rule, and the verdict.
\<close>

definition xdp_flow_stage :: "xdp_env \<Rightarrow> xdp_flow_key \<Rightarrow> u32 \<Rightarrow> xdp_maps \<Rightarrow> nat \<times> xdp_maps" where
  "xdp_flow_stage env key packet_len m =
     (case get_or_create_flow env (flow_map m) key of
        (None, fm) \<Rightarrow> (XDP_PASS, m\<lparr>flow_map := fm\<rparr>)
      | (Some st, fm) \<Rightarrow>
          (let s1 = st\<lparr>xs_packet_count := xs_packet_count st + 1,
                       xs_byte_count := xs_byte_count st + ucast packet_len,
                       xs_last_seen := t_now env\<rparr>;
               offload = (xs_packet_count s1 > 100 \<and> xs_flags s1 AND TRUSTED_FLOW_FLAG = 0);
               s2 = (if offload then s1\<lparr>xs_flags := xs_flags s1 OR TRUSTED_FLOW_FLAG\<rparr> else s1);
               st1 = (if offload then (stats m)\<lparr>flows_offloaded := flows_offloaded (stats m) + 1\<rparr>
                      else stats m);
               m1 = m\<lparr>flow_map := fm(key \<mapsto> s2), stats := st1\<rparr>
           in if xs_verdict s2 = of_nat XDP_DROP
              then (XDP_DROP, update_statistics 1 packet_len 1 m1)
              else (XDP_PASS, update_statistics 1 packet_len 0 m1)))"

text \<open>
  The transport-layer part: ports for TCP and UDP, and the DNS blocking check for UDP to
  port 53.
\<close>

definition xdp_l4_stage ::
  "xdp_env \<Rightarrow> u8 list \<Rightarrow> u32 \<Rightarrow> u32 \<Rightarrow> xdp_maps \<Rightarrow> nat \<times> xdp_maps" where
  "xdp_l4_stage env pkt src_ip dst_ip m =
     (let protocol = ip_protocol pkt;
          tot_len = (ucast (ntohs (ip_tot_len pkt)) :: u32);
          flow_key = \<lparr>xk_src_ip = src_ip, xk_dst_ip = dst_ip, xk_src_port = 0,
                      xk_dst_port = 0, xk_ip_proto = protocol\<rparr>
      in if protocol = IPPROTO_TCP \<or> protocol = IPPROTO_UDP then
           (if 42 > length pkt then (XDP_PASS, m)
            else
              (let source = load16 pkt 34; dest = load16 pkt 36;
                   flow_key1 = flow_key\<lparr>xk_src_port := source, xk_dst_port := dest\<rparr>
               in if protocol = IPPROTO_UDP \<and> dest = htons DNS_PORT then
                    (if 54 > length pkt then (XDP_PASS, m)
                     else if (pkt ! 44) AND 0x80 \<noteq> 0 then (XDP_PASS, m)
                     else
                       (let domain = xdp_dns_domain pkt 12 []
                        in if is_domain_blocked (dns_bloom m) domain
                           then (XDP_DROP,
                                 send_event env 2 src_ip dst_ip source dest protocol
                                   (Some domain) (of_nat (length domain))
                                   (update_statistics 1 tot_len 1 m))
                           else xdp_flow_stage env flow_key1 tot_len m))
                  else xdp_flow_stage env flow_key1 tot_len m))
         else xdp_flow_stage env flow_key tot_len m)"

definition xdp_blocklist_prog :: "xdp_env \<Rightarrow> u8 list \<Rightarrow> xdp_maps \<Rightarrow> nat \<times> xdp_maps" where
  "xdp_blocklist_prog env pkt m =
     (if 14 > length pkt then (XDP_PASS, m)
      else if eth_h_proto pkt \<noteq> htons ETH_P_IP then (XDP_PASS, m)
      else if 34 > length pkt then (XDP_PASS, m)
      else if ip_frag_off pkt AND htons 0x3fff \<noteq> 0 then (XDP_PASS, m)
      else
        (let src_ip = ip_saddr pkt; dst_ip = ip_daddr pkt;
             tot_len = (ucast (ntohs (ip_tot_len pkt)) :: u32)
         in if is_ip_blocked (ip_blocklist m) src_ip then
              (XDP_DROP,
               send_event env 1 src_ip dst_ip 0 0 (ip_protocol pkt) None 0
                 (update_statistics 1 tot_len 1 m))
            else
              (let rl = rate_limit_check (t_rate_limit env) (ip_blocklist m) src_ip;
                   m1 = m\<lparr>ip_blocklist := snd rl\<rparr>
               in if fst rl = 0 then (XDP_DROP, update_statistics 1 tot_len 1 m1)
                  else xdp_l4_stage env pkt src_ip dst_ip m1)))"

section \<open>The TC classifier (tc\_offload.c)\<close>

definition VERDICT_UNKNOWN :: u32 where "VERDICT_UNKNOWN = 0"
definition VERDICT_TRUSTED :: u32 where "VERDICT_TRUSTED = 1"
definition VERDICT_DROP :: u32 where "VERDICT_DROP = 2"
definition NFQUEUE_BYPASS_MARK :: u32 where "NFQUEUE_BYPASS_MARK = 0x200000"

abbreviation (input) TC_ACT_OK :: int where "TC_ACT_OK \<equiv> 0"
abbreviation (input) TC_ACT_SHOT :: int where "TC_ACT_SHOT \<equiv> - 2"
abbreviation (input) QOS_PROFILE_DEFAULT :: u32 where "QOS_PROFILE_DEFAULT \<equiv> 0"
abbreviation (input) QOS_PROFILE_VIDEO :: u8 where "QOS_PROFILE_VIDEO \<equiv> 3"
abbreviation (input) QOS_PROFILE_VOICE :: u8 where "QOS_PROFILE_VOICE \<equiv> 4"

text \<open>
  The members of \<open>struct __sk_buff\<close> the classifier touches, with the packet bytes;
  \<open>struct flow_key\<close> and \<open>struct flow_state\<close> of flow.h; \<open>struct qos_profile\<close>;
  \<open>struct tc_stats\<close>.
\<close>

record sk_buff =
  skb_data :: "u8 list"
  skb_len :: u32
  skb_ifindex :: u32
  skb_mark :: u32
  skb_priority :: u32
  skb_queue_mapping :: u32

record tc_flow_key =
  tk_src_ip :: u32
  tk_dst_ip :: u32
  tk_src_port :: u16
  tk_dst_port :: u16
  tk_ip_proto :: u8
  tk_ifindex :: u32

record tc_flow_state =
  ts_first_seen :: u64
  ts_last_seen :: u64
  ts_packet_count :: u64
  ts_byte_count :: u64
  ts_verdict :: u32
  ts_offload_mark :: u32
  ts_qos_profile :: u32
  ts_flags :: u8

record qos_profile =
  qp_rate_limit :: u32
  qp_burst_limit :: u32
  qp_priority :: u8
  qp_app_class :: u8

record tc_stats =
  tcs_packets_processed :: u64
  tcs_packets_fast_path :: u64
  tcs_packets_slow_path :: u64
  tcs_packets_dropped :: u64
  tcs_bytes_processed :: u64

record tc_maps =
  tc_flow_map :: "tc_flow_key \<rightharpoonup> tc_flow_state"
  qos_profiles :: "u32 \<Rightarrow> qos_profile"
  tc_stats_map :: tc_stats

text \<open>\<open>extract_flow_key\<close>: \<open>None\<close> stands for the return value -1.\<close>

definition extract_flow_key :: "sk_buff \<Rightarrow> tc_flow_key option" where
  "extract_flow_key skb =
     (let p = skb_data skb
      in if 34 > length p then None
         else if eth_h_proto p \<noteq> htons ETH_P_IP then None
         else
           (let key = \<lparr>tk_src_ip = ip_saddr p, tk_dst_ip = ip_daddr p, tk_src_port = 0,
                       tk_dst_port = 0, tk_ip_proto = ip_protocol p, tk_ifindex = 0\<rparr>;
                l4 = 14 + unat (ip_ihl p) * 4
            in if ip_protocol p = IPPROTO_TCP then
                 (if l4 + 20 > length p then None
                  else Some (key\<lparr>tk_src_port := ntohs (load16 p l4),
                                 tk_dst_port := ntohs (load16 p (l4 + 2)),
                                 tk_ifindex := skb_ifindex skb\<rparr>))
               else if ip_protocol p = IPPROTO_UDP then
                 (if l4 + 8 > length p then None
                  else Some (key\<lparr>tk_src_port := ntohs (load16 p l4),
                                 tk_dst_port := ntohs (load16 p (l4 + 2)),
                                 tk_ifindex := skb_ifindex skb\<rparr>))
               else Some (key\<lparr>tk_ifindex := skb_ifindex skb\<rparr>)))"

definition apply_qos :: "(u32 \<Rightarrow> qos_profile) \<Rightarrow> sk_buff \<Rightarrow> tc_flow_state \<Rightarrow> int \<times> sk_buff" where
  "apply_qos profiles skb state =
     (if ts_qos_profile state = QOS_PROFILE_DEFAULT then (TC_ACT_OK, skb)
      else
        (case array_lookup 16 profiles (ts_qos_profile state) of
           None \<Rightarrow> (TC_ACT_OK, skb)
         | Some qos \<Rightarrow>
             (let skb1 = skb\<lparr>skb_priority := ucast (qp_priority qos)\<rparr>;
                  skb2 = (if qp_app_class qos = QOS_PROFILE_VIDEO \<or> qp_app_class qos = QOS_PROFILE_VOICE
                          then skb1\<lparr>skb_queue_mapping := ucast (qp_app_class qos)\<rparr>
                          else skb1);
                  skb3 = skb2\<lparr>skb_mark := skb_mark skb2 OR 0x100000\<rparr>
              in (TC_ACT_OK, skb3))))"

definition update_stats :: "u64 \<Rightarrow> u64 \<Rightarrow> u64 \<Rightarrow> u64 \<Rightarrow> u64 \<Rightarrow> tc_maps \<Rightarrow> tc_maps" where
  "update_stats packets bytes fast_path slow_path dropped m =
     (let s = tc_stats_map m
      in m\<lparr>tc_stats_map :=
              s\<lparr>tcs_packets_processed := tcs_packets_processed s + packets,
                tcs_bytes_processed := tcs_bytes_processed s + bytes,
                tcs_packets_fast_path := tcs_packets_fast_path s + fast_path,
                tcs_packets_slow_path := tcs_packets_slow_path s + slow_path,
                tcs_packets_dropped := tcs_packets_dropped s + dropped\<rparr>\<rparr>)"

text \<open>
  \<open>tc_fast_path\<close>. \<open>now\<close> is the value of \<open>bpf_ktime_get_ns\<close>, which the program
  \<^emph>\<open>adds\<close> to \<open>last_seen\<close>. The result is the TC action, the packet's metadata and the
  maps.
\<close>

definition tc_fast_path :: "u64 \<Rightarrow> sk_buff \<Rightarrow> tc_maps \<Rightarrow> int \<times> sk_buff \<times> tc_maps" where
  "tc_fast_path now skb m =
     (case extract_flow_key skb of
        None \<Rightarrow> (TC_ACT_OK, skb, update_stats 1 (ucast (skb_len skb)) 0 1 0 m)
      | Some key \<Rightarrow>
          (case tc_flow_map m key of
             None \<Rightarrow> (TC_ACT_OK, skb, update_stats 1 (ucast (skb_len skb)) 0 1 0 m)
           | Some state \<Rightarrow>
               (let state1 = state\<lparr>ts_packet_count := ts_packet_count state + 1,
                                   ts_byte_count := ts_byte_count state + ucast (skb_len skb),
                                   ts_last_seen := ts_last_seen state + now\<rparr>;
                    m1 = m\<lparr>tc_flow_map := (tc_flow_map m)(key \<mapsto> state1)\<rparr>
                in if ts_verdict state1 = VERDICT_TRUSTED then
                     (let skb1 = skb\<lparr>skb_mark := NFQUEUE_BYPASS_MARK\<rparr>;
                          qos_result = apply_qos (qos_profiles m1) skb1 state1
                      in if fst qos_result \<noteq> TC_ACT_OK
                         then (fst qos_result, snd qos_result,
                               update_stats 1 (ucast (skb_len skb)) 0 0 1 m1)
                         else (TC_ACT_OK, snd qos_result,
                               update_stats 1 (ucast (skb_len skb)) 1 0 0 m1))
                   else if ts_verdict state1 = VERDICT_DROP then
                     (TC_ACT_SHOT, skb, update_stats 1 (ucast (skb_len skb)) 0 0 1 m1)
                   else (TC_ACT_OK, skb, update_stats 1 (ucast (skb_len skb)) 0 1 0 m1))))"

text \<open>\<open>is_expired\<close> of include/common.h, with the clock reading as an argument.\<close>

definition is_expired :: "u64 \<Rightarrow> u64 \<Rightarrow> bool" where
  "is_expired now expires_at = (now > expires_at)"

section \<open>The DNS socket filter (dns\_socket.c)\<close>

abbreviation (input) STAT_QUERIES_PROCESSED :: u32 where "STAT_QUERIES_PROCESSED \<equiv> 0"
abbreviation (input) STAT_RESPONSES_PROCESSED :: u32 where "STAT_RESPONSES_PROCESSED \<equiv> 1"
abbreviation (input) DNS_STAT_ERRORS :: u32 where "DNS_STAT_ERRORS \<equiv> 5"

text \<open>
  The structures as dns\_socket.c uses them (it names the members \<open>query_type\<close>,
  \<open>query_class\<close>, \<open>packet_size\<close>, \<open>pad\<close>). A \<open>char domain[253]\<close> holding a
  NUL-terminated name is the list of the bytes before the terminator. \<open>packet_size\<close> is a
  16-bit member, as in \<open>struct dns_response_info\<close> and \<open>struct dns_event\<close>.
\<close>

record dns_key =
  dk_src_ip :: u32
  dk_dst_ip :: u32
  dk_src_port :: u16
  dk_dst_port :: u16
  dk_query_id :: u16
  dk_pad :: u16

record dns_query_info =
  dq_domain :: "u8 list"
  dq_query_type :: u16
  dq_query_class :: u16
  dq_packet_size :: u16
  dq_timestamp :: u64

record dns_response_info =
  dr_response_code :: u8
  dr_answer_count :: u16
  dr_authority_count :: u16
  dr_additional_count :: u16
  dr_query_timestamp :: u64
  dr_response_timestamp :: u64
  dr_domain :: "u8 list"
  dr_packet_size :: u16

record dns_event =
  de_timestamp :: u64
  de_pid :: u32
  de_tid :: u32
  de_src_ip :: u32
  de_dst_ip :: u32
  de_src_port :: u16
  de_dst_port :: u16
  de_query_id :: u16
  de_is_response :: u8
  de_query_type :: u16
  de_query_class :: u16
  de_response_code :: u8
  de_answer_count :: u16
  de_domain :: "u8 list"
  de_packet_size :: u16
  de_response_time_ns :: u64

record dns_maps =
  dns_queries :: "dns_key \<rightharpoonup> dns_query_info"
  dns_responses :: "u16 \<rightharpoonup> dns_response_info"
  dns_stats :: "u32 \<Rightarrow> u64"
  dns_events :: "dns_event list"

text \<open>
  The kernel's answers during one invocation: the clock read for the packet's timestamp
  and for the event's, \<open>bpf_get_current_pid_tgid\<close>, and the ring-buffer reservation.
\<close>

record dns_env =
  dns_t_packet :: u64
  dns_t_event :: u64
  dns_pid_tgid :: u64
  dns_rb_slot :: "dns_event option"

definition dns_increment_stat :: "u32 \<Rightarrow> dns_maps \<Rightarrow> dns_maps" where
  "dns_increment_stat stat_idx m =
     (case array_lookup 10 (dns_stats m) stat_idx of
        None \<Rightarrow> m
      | Some count \<Rightarrow> m\<lparr>dns_stats := (dns_stats m)(stat_idx := count + 1)\<rparr>)"

definition send_dns_event ::
  "dns_env \<Rightarrow> dns_key \<Rightarrow> dns_query_info option \<Rightarrow> dns_response_info option \<Rightarrow> u8
     \<Rightarrow> dns_maps \<Rightarrow> dns_maps" where
  "send_dns_event env key query_info response_info is_response m =
     (case dns_rb_slot env of
        None \<Rightarrow> dns_increment_stat DNS_STAT_ERRORS m
      | Some event \<Rightarrow>
          (let e1 = event\<lparr>de_timestamp := dns_t_event env,
                          de_pid := ucast (drop_bit 32 (dns_pid_tgid env)),
                          de_tid := ucast (dns_pid_tgid env AND 0xFFFFFFFF),
                          de_src_ip := dk_src_ip key, de_dst_ip := dk_dst_ip key,
                          de_src_port := dk_src_port key, de_dst_port := dk_dst_port key,
                          de_query_id := dk_query_id key, de_is_response := is_response\<rparr>;
               e2 = (case (if is_response \<noteq> 0 then response_info else None) of
                       Some ri \<Rightarrow>
                         (let e = e1\<lparr>de_response_code := dr_response_code ri,
                                      de_answer_count := dr_answer_count ri,
                                      de_packet_size := dr_packet_size ri,
                                      de_domain := dr_domain ri\<rparr>
                          in if dr_query_timestamp ri > 0
                             then e\<lparr>de_response_time_ns :=
                                      dr_response_timestamp ri - dr_query_timestamp ri\<rparr>
                             else e)
                     | None \<Rightarrow>
                         (case (if is_response = 0 then query_info else None) of
                            Some qi \<Rightarrow> e1\<lparr>de_query_type := dq_query_type qi,
                                            de_query_class := dq_query_class qi,
                                            de_packet_size := dq_packet_size qi,
                                            de_domain := dq_domain qi\<rparr>
                          | None \<Rightarrow> e1))
           in m\<lparr>dns_events := dns_events m @ [e2]\<rparr>))"

text \<open>
  \<open>dns_socket_filter\<close>. The helper \<open>extract_domain\<close> it calls is not among the
  repository's sources; it is a parameter here, with the signature of
  \<open>parse_dns_name\<close>: from the DNS bytes, the cursor and the capacity of the name buffer to
  the return value, the new cursor and the name. \<open>dns\<close> below is the DNS message, the
  \<open>dns_len\<close> bytes from byte 42 of the packet. A test \<open>a || b\<close> is written as two
  successive tests. The result is the filter's return value and the maps.
\<close>

definition dns_socket_filter ::
  "(u8 list \<Rightarrow> nat \<Rightarrow> int \<Rightarrow> dns_name_result) \<Rightarrow> dns_env \<Rightarrow> sk_buff \<Rightarrow> dns_maps
     \<Rightarrow> int \<times> dns_maps" where
  "dns_socket_filter extract_domain env skb m =
     (let p = skb_data skb
      in if 42 > length p then (0, m)
         else if eth_h_proto p \<noteq> htons ETH_P_IP then (0, m)
         else if ip_protocol p \<noteq> IPPROTO_UDP then (0, m)
         else
           (let source = load16 p 34; dest = load16 p 36;
                dns_len = uint (ntohs (load16 p 38)) - 8
            in if dest \<noteq> htons DNS_PORT \<and> source \<noteq> htons DNS_PORT then (0, m)
               else if 42 + dns_len > int (length p) \<or> dns_len < 12 then (0, m)
               else
                 (let dns = take (nat dns_len) (drop 42 p);
                      transaction_id = be16 (dns ! 0) (dns ! 1);
                      flags = be16 (dns ! 2) (dns ! 3);
                      questions = be16 (dns ! 4) (dns ! 5);
                      answers = be16 (dns ! 6) (dns ! 7);
                      is_response = (flags AND 0x8000 \<noteq> 0);
                      key = \<lparr>dk_src_ip = ip_saddr p, dk_dst_ip = ip_daddr p,
                             dk_src_port = source, dk_dst_port = dest,
                             dk_query_id = transaction_id, dk_pad = 0\<rparr>;
                      d = extract_domain dns 12 253;
                      pos = dn_pos d; domain = dn_name d
                  in if dn_ret d < 0 then (0, dns_increment_stat DNS_STAT_ERRORS m)
                     else if \<not> is_response \<and> questions > 0 then
                       (let qi0 = \<lparr>dq_domain = domain, dq_query_type = 0, dq_query_class = 0,
                                   dq_packet_size = ucast (skb_len skb),
                                   dq_timestamp = dns_t_packet env\<rparr>;
                            query_info =
                              (if int pos + 4 \<le> dns_len
                               then qi0\<lparr>dq_query_type := be16 (dns ! pos) (dns ! (pos + 1)),
                                        dq_query_class := be16 (dns ! (pos + 2)) (dns ! (pos + 3))\<rparr>
                               else qi0);
                            r = bpf_map_update_elem (dns_queries m) key query_info BPF_ANY;
                            m1 = m\<lparr>dns_queries := snd r\<rparr>
                        in if fst r = 0
                           then (0, send_dns_event env key (Some query_info) None 0
                                      (dns_increment_stat STAT_QUERIES_PROCESSED m1))
                           else (0, dns_increment_stat DNS_STAT_ERRORS m1))
                     else if is_response \<and> answers > 0 then
                       (let ri0 = \<lparr>dr_response_code = ucast (flags AND 0x000F),
                                   dr_answer_count = answers,
                                   dr_authority_count = be16 (dns ! 8) (dns ! 9),
                                   dr_additional_count = be16 (dns ! 10) (dns ! 11),
                                   dr_query_timestamp = 0,
                                   dr_response_timestamp = dns_t_packet env,
                                   dr_domain = domain,
                                   dr_packet_size = ucast (skb_len skb)\<rparr>;
                            lookup_key = \<lparr>dk_src_ip = ip_daddr p, dk_dst_ip = ip_saddr p,
                                          dk_src_port = dest, dk_dst_port = source,
                                          dk_query_id = transaction_id, dk_pad = 0\<rparr>;
                            response_info =
                              (case dns_queries m lookup_key of
                                 None \<Rightarrow> ri0
                               | Some query \<Rightarrow> ri0\<lparr>dr_query_timestamp := dq_timestamp query\<rparr>);
                            r = bpf_map_update_elem (dns_responses m) transaction_id
                                  response_info BPF_ANY;
                            m1 = m\<lparr>dns_responses := snd r\<rparr>;
                            m2 = (if fst r = 0
                                  then send_dns_event env key None (Some response_info) 1
                                         (dns_increment_stat STAT_RESPONSES_PROCESSED m1)
                                  else dns_increment_stat DNS_STAT_ERRORS m1)
                        in (0, m2\<lparr>dns_queries := bpf_map_delete_elem (dns_queries m2) key\<rparr>))
                     else (0, m))))"

section \<open>The TLS socket filter (socket\_tls.c, include/common.h)\<close>

abbreviation (input) TLS_RECORD_HANDSHAKE :: u8 where "TLS_RECORD_HANDSHAKE \<equiv> 0x16"
abbreviation (input) TLS_HANDSHAKE_CLIENT_HELLO :: u8 where "TLS_HANDSHAKE_CLIENT_HELLO \<equiv> 0x01"
abbreviation (input) MAX_SNI_LEN :: nat where "MAX_SNI_LEN \<equiv> 64"
abbreviation (input) STAT_HANDSHAKES_OBSERVED :: u32 where "STAT_HANDSHAKES_OBSERVED \<equiv> 0"
abbreviation (input) TLS_STAT_ERRORS :: u32 where "TLS_STAT_ERRORS \<equiv> 3"

record tls_key =
  tlk_src_ip :: u32
  tlk_dst_ip :: u32
  tlk_src_port :: u16
  tlk_dst_port :: u16

text \<open>\<open>char sni[MAX_SNI_LEN]\<close> is a list of 64 bytes, \<open>ja3_hash\<close> a list of four words.\<close>

record tls_handshake_info =
  th_version :: u16
  th_cipher_suite :: u16
  th_sni :: "u8 list"
  th_ja3_hash :: "u32 list"
  th_timestamp :: u64

record tls_event =
  te_timestamp :: u64
  te_pid :: u32
  te_tid :: u32
  te_src_ip :: u32
  te_dst_ip :: u32
  te_src_port :: u16
  te_dst_port :: u16
  te_version :: u16
  te_cipher_suite :: u16
  te_sni :: "u8 list"
  te_ja3_hash :: "u32 list"
  te_packet_size :: u16
  te_pad :: "u8 list"

record tls_maps =
  tls_handshakes :: "tls_key \<rightharpoonup> tls_handshake_info"
  tls_stats :: "u32 \<Rightarrow> u64"
  tls_events :: "tls_event list"

record tls_env =
  tls_t_packet :: u64
  tls_t_event :: u64
  tls_pid_tgid :: u64
  tls_rb_slot :: "tls_event option"

text \<open>
  The result of \<open>parse_tls_sni\<close>: its return value with the contents of the \<open>sni\<close>
  buffer, or \<open>SNI_out_of_bounds\<close> when the function reads a byte at or beyond
  \<open>data_len\<close>.
\<close>

datatype sni_result = SNI_out_of_bounds | SNI_return int "u8 list"

text \<open>The extension walk of \<open>parse_tls_sni\<close>; \<open>data_len\<close> is \<open>length data\<close>.\<close>

function tls_extensions :: "u8 list \<Rightarrow> nat \<Rightarrow> nat \<Rightarrow> u8 list \<Rightarrow> int \<Rightarrow> sni_result" where
  "tls_extensions data pos extensions_end sni sni_max =
     (if pos + 4 \<le> extensions_end \<and> pos < length data then
        (if pos + 3 \<ge> length data then SNI_out_of_bounds
         else
           (let ext_type = be16 (data ! pos) (data ! (pos + 1));
                ext_len = be16 (data ! (pos + 2)) (data ! (pos + 3));
                pos1 = pos + 4
            in if pos1 + unat ext_len > length data then SNI_return (- 1) sni
               else if ext_type = 0 then
                 (if pos1 + 2 > length data then SNI_return (- 1) sni
                  else if pos1 + 2 + 3 > length data then SNI_return (- 1) sni
                  else
                    (let pos3 = pos1 + 2 + 3;
                         sni_len0 = be16 (data ! (pos3 - 2)) (data ! (pos3 - 1));
                         sni_len = (if uint sni_len0 \<ge> sni_max
                                    then (word_of_int (sni_max - 1) :: u16) else sni_len0);
                         idx = takeWhile (\<lambda>i. pos3 + i < length data) [0 ..< unat sni_len];
                         sni1 = map (\<lambda>i. data ! (pos3 + i)) idx @ drop (length idx) sni;
                         sni2 = sni1[unat sni_len := 0]
                     in SNI_return (uint sni_len) sni2))
               else tls_extensions data (pos1 + unat ext_len) extensions_end sni sni_max))
      else SNI_return 0 sni)"
  by pat_completeness auto
termination
  by (relation "measure (\<lambda>(data, pos, extensions_end, sni, sni_max). length data - pos)") auto

definition parse_tls_sni :: "u8 list \<Rightarrow> u8 list \<Rightarrow> int \<Rightarrow> sni_result" where
  "parse_tls_sni data sni sni_max =
     (if length data < 9 then SNI_return (- 1) sni
      else if 9 + 1 \<ge> length data then SNI_return (- 1) sni
      else
        (let session_id_len = data ! 9;
             pos1 = 10 + unat session_id_len
         in if pos1 + 2 \<ge> length data then SNI_return (- 1) sni
            else
              (let cipher_suites_len = be16 (data ! pos1) (data ! (pos1 + 1));
                   pos2 = pos1 + 2 + unat cipher_suites_len
               in if pos2 + 1 \<ge> length data then SNI_return (- 1) sni
                  else
                    (let compression_methods_len = data ! pos2;
                         pos3 = pos2 + 1 + unat compression_methods_len
                     in if pos3 + 2 \<ge> length data then SNI_return (- 1) sni
                        else
                          (let extensions_len = be16 (data ! pos3) (data ! (pos3 + 1));
                               pos4 = pos3 + 2;
                               extensions_end = pos4 + unat extensions_len
                           in tls_extensions data pos4 extensions_end sni sni_max)))))"

text \<open>
  \<open>produce_ja3_hash\<close>. A \<open>char\<close> of \<open>sni\<close> is promoted to \<open>int\<close> (sign-extended, as
  \<open>char\<close> is signed on the BPF target) before it is shifted and folded into the 32-bit
  word.
\<close>

definition produce_ja3_hash :: "tls_handshake_info \<Rightarrow> tls_handshake_info" where
  "produce_ja3_hash info =
     (let h2 = fold (\<lambda>i h. h XOR push_bit (i mod 24) (scast (th_sni info ! i)))
                 [0 ..< MAX_SNI_LEN] (0 :: u32);
          h3 = fold (\<lambda>i h. h XOR push_bit ((i + 13) mod 24) (scast (th_sni info ! i)))
                 [0 ..< MAX_SNI_LEN] (0 :: u32)
      in info\<lparr>th_ja3_hash := [ucast (th_version info), ucast (th_cipher_suite info), h2, h3]\<rparr>)"

definition tls_increment_stat :: "u32 \<Rightarrow> tls_maps \<Rightarrow> tls_maps" where
  "tls_increment_stat stat_idx m =
     (case array_lookup 10 (tls_stats m) stat_idx of
        None \<Rightarrow> m
      | Some count \<Rightarrow> m\<lparr>tls_stats := (tls_stats m)(stat_idx := count + 1)\<rparr>)"

definition send_tls_event :: "tls_env \<Rightarrow> sk_buff \<Rightarrow> tls_key \<Rightarrow> tls_handshake_info \<Rightarrow> tls_maps \<Rightarrow> tls_maps" where
  "send_tls_event env skb key info m =
     (case tls_rb_slot env of
        None \<Rightarrow> tls_increment_stat TLS_STAT_ERRORS m
      | Some event \<Rightarrow>
          m\<lparr>tls_events := tls_events m @
              [event\<lparr>te_timestamp := tls_t_event env,
                     te_pid := ucast (drop_bit 32 (tls_pid_tgid env)),
                     te_tid := ucast (tls_pid_tgid env),
                     te_src_ip := tlk_src_ip key, te_dst_ip := tlk_dst_ip key,
                     te_src_port := tlk_src_port key, te_dst_port := tlk_dst_port key,
                     te_version := th_version info, te_cipher_suite := th_cipher_suite info,
                     te_packet_size := ucast (skb_len skb),
                     te_sni := th_sni info, te_ja3_hash := th_ja3_hash info,
                     te_pad := replicate 6 0\<rparr>]\<rparr>)"

text \<open>
  \<open>tls_socket_filter\<close>. The TCP header is located with the IP header length and the
  payload with the TCP data offset (the high nibble of byte 12 of the TCP header). The
  result is \<open>None\<close> when the program reads outside the packet (the 16-bit unit holding
  the data offset, at bytes 12 and 13 of a TCP header that an IP header longer than 20
  bytes moves beyond the checked 54 bytes, or a byte inside \<open>parse_tls_sni\<close>), otherwise
  the return value and the maps.
\<close>

definition tls_socket_filter :: "tls_env \<Rightarrow> sk_buff \<Rightarrow> tls_maps \<Rightarrow> (int \<times> tls_maps) option" where
  "tls_socket_filter env skb m =
     (let p = skb_data skb
      in if 54 > length p then Some (0, m)
         else if eth_h_proto p \<noteq> htons ETH_P_IP then Some (0, m)
         else if ip_protocol p \<noteq> IPPROTO_TCP then Some (0, m)
         else
           (let tcp = 14 + unat (ip_ihl p) * 4
            in if tcp + 14 > length p then None
               else
                 (let doff = drop_bit 4 (p ! (tcp + 12));
                      payload = tcp + unat doff * 4
                  in if payload + 5 > length p then Some (0, m)
                     else
                       (let tls_data = drop payload p;
                            content_type = tls_data ! 0;
                            version = be16 (tls_data ! 1) (tls_data ! 2)
                        in if content_type \<noteq> TLS_RECORD_HANDSHAKE then Some (0, m)
                           else if payload + 5 + 4 > length p then Some (0, m)
                           else if tls_data ! 5 \<noteq> TLS_HANDSHAKE_CLIENT_HELLO then Some (0, m)
                           else
                             (let key = \<lparr>tlk_src_ip = ip_saddr p, tlk_dst_ip = ip_daddr p,
                                         tlk_src_port = load16 p tcp,
                                         tlk_dst_port = load16 p (tcp + 2)\<rparr>;
                                  info0 = \<lparr>th_version = version, th_cipher_suite = 0,
                                           th_sni = replicate MAX_SNI_LEN 0,
                                           th_ja3_hash = replicate 4 0,
                                           th_timestamp = tls_t_packet env\<rparr>
                              in case parse_tls_sni tls_data (th_sni info0) (int MAX_SNI_LEN) of
                                   SNI_out_of_bounds \<Rightarrow> None
                                 | SNI_return ret sni \<Rightarrow>
                                     (let info = produce_ja3_hash (info0\<lparr>th_sni := sni\<rparr>);
                                          r = bpf_map_update_elem (tls_handshakes m) key info BPF_ANY;
                                          m1 = m\<lparr>tls_handshakes := snd r\<rparr>
                                      in if fst r = 0
                                         then Some (0, send_tls_event env skb key info
                                                         (tls_increment_stat STAT_HANDSHAKES_OBSERVED m1))
                                         else Some (0, m1)))))))"

section \<open>Concrete packets and states\<close>

text \<open>
  An IPv4 ICMP packet from 10.0.0.1 to 10.0.0.2 (Ethernet header, 20-byte IP header,
  total length 20), and the same packet with the more-fragments flag set.
\<close>

definition pkt_icmp :: "u8 list" where
  "pkt_icmp = [0, 0, 0, 0, 0, 0,  0, 0, 0, 0, 0, 0,  0x08, 0x00,
               0x45, 0, 0, 20,  0, 0, 0, 0,  64, 1, 0, 0,  10, 0, 0, 1,  10, 0, 0, 2]"

definition pkt_icmp_fragment :: "u8 list" where
  "pkt_icmp_fragment = [0, 0, 0, 0, 0, 0,  0, 0, 0, 0, 0, 0,  0x08, 0x00,
               0x45, 0, 0, 20,  0, 0, 0x20, 0,  64, 1, 0, 0,  10, 0, 0, 1,  10, 0, 0, 2]"

definition key_icmp :: xdp_flow_key where
  "key_icmp = \<lparr>xk_src_ip = 0x0100000a, xk_dst_ip = 0x0200000a, xk_src_port = 0,
               xk_dst_port = 0, xk_ip_proto = 1\<rparr>"

definition stats0 :: statistics where
  "stats0 = \<lparr>packets_processed = 0, packets_dropped = 0, packets_passed = 0,
             bytes_processed = 0, blocked_ips = 0, blocked_dns = 0, flows_offloaded = 0,
             events_generated = 0, last_cleanup = 0\<rparr>"

text \<open>Empty maps; the same with 10.0.0.1 on the blocklist.\<close>

definition xdp_maps0 :: xdp_maps where
  "xdp_maps0 = \<lparr>ip_blocklist = Map.empty, flow_map = Map.empty, stats = stats0,
                dns_bloom = (\<lambda>i. 0), events = []\<rparr>"

definition xdp_maps_blocked :: xdp_maps where
  "xdp_maps_blocked = xdp_maps0\<lparr>ip_blocklist := [0x0100000a \<mapsto> 1]\<rparr>"

text \<open>
  An invocation during which every clock read returns \<open>t\<close> and the ring buffer is full,
  and one where the reservation succeeds on zeroed memory.
\<close>

definition env_full :: "u64 \<Rightarrow> xdp_env" where
  "env_full t = \<lparr>t_rate_limit = t, t_created = t, t_expires = t, t_now = t, t_event = t,
                 rb_slot = None\<rparr>"

definition event0 :: event where
  "event0 = \<lparr>ev_type = 0, ev_timestamp = 0, ev_src_ip = 0, ev_dst_ip = 0, ev_src_port = 0,
             ev_dst_port = 0, ev_protocol = 0, ev_data_len = 0, ev_data = replicate 128 0\<rparr>"

definition env_free :: "u64 \<Rightarrow> xdp_env" where
  "env_free t = (env_full t)\<lparr>rb_slot := Some event0\<rparr>"

text \<open>
  The state of a flow that has seen 100 packets, created at time 1 and hence past its
  \<open>expires_at\<close> at any time after 300000000001.
\<close>

definition flow_100 :: xdp_flow_state where
  "flow_100 = \<lparr>xs_verdict = 2, xs_qos_profile = 0, xs_flags = 0, xs_packet_count = 100,
               xs_byte_count = 2000, xs_last_seen = 100, xs_created_at = 1,
               xs_expires_at = 300000000001\<rparr>"

definition xdp_maps_flow :: xdp_maps where
  "xdp_maps_flow = xdp_maps0\<lparr>flow_map := [key_icmp \<mapsto> flow_100]\<rparr>"

text \<open>The same packet at the TC hook, and a flow table entry for it.\<close>

definition skb_icmp :: sk_buff where
  "skb_icmp = \<lparr>skb_data = pkt_icmp, skb_len = 34, skb_ifindex = 2, skb_mark = 0,
               skb_priority = 0, skb_queue_mapping = 0\<rparr>"

definition tc_key_icmp :: tc_flow_key where
  "tc_key_icmp = \<lparr>tk_src_ip = 0x0100000a, tk_dst_ip = 0x0200000a, tk_src_port = 0,
                  tk_dst_port = 0, tk_ip_proto = 1, tk_ifindex = 2\<rparr>"

definition tc_flow :: "u32 \<Rightarrow> u32 \<Rightarrow> tc_flow_state" where
  "tc_flow verdict profile = \<lparr>ts_first_seen = 1, ts_last_seen = 100, ts_packet_count = 100,
              ts_byte_count = 3400, ts_verdict = verdict, ts_offload_mark = 0,
              ts_qos_profile = profile, ts_flags = 0\<rparr>"

definition tc_maps_flow :: "u32 \<Rightarrow> u32 \<Rightarrow> tc_maps" where
  "tc_maps_flow verdict profile =
     \<lparr>tc_flow_map = [tc_key_icmp \<mapsto> tc_flow verdict profile],
      qos_profiles = (\<lambda>i. \<lparr>qp_rate_limit = 0, qp_burst_limit = 0, qp_priority = 6,
                            qp_app_class = 4\<rparr>),
      tc_stats_map = \<lparr>tcs_packets_processed = 0, tcs_packets_fast_path = 0,
                      tcs_packets_slow_path = 0, tcs_packets_dropped = 0,
                      tcs_bytes_processed = 0\<rparr>\<rparr>"

text \<open>
  A DNS query for example.com, id 0x1234, from 10.0.0.1 port 5353 to 8.8.8.8 port 53, and
  the response from 8.8.8.8 with one answer record.
\<close>

definition skb_dns_query :: sk_buff where
  "skb_dns_query = \<lparr>skb_data =
       [0, 0, 0, 0, 0, 0,  0, 0, 0, 0, 0, 0,  0x08, 0x00,
        0x45, 0, 0, 57,  0, 0, 0, 0,  64, 17, 0, 0,  10, 0, 0, 1,  8, 8, 8, 8,
        0x14, 0xe9,  0x00, 0x35,  0, 37,  0, 0,
        0x12, 0x34,  0x01, 0x00,  0, 1,  0, 0,  0, 0,  0, 0,
        7, 0x65, 0x78, 0x61, 0x6d, 0x70, 0x6c, 0x65,  3, 0x63, 0x6f, 0x6d,  0,
        0, 1,  0, 1],
     skb_len = 71, skb_ifindex = 2, skb_mark = 0, skb_priority = 0, skb_queue_mapping = 0\<rparr>"

definition skb_dns_response :: sk_buff where
  "skb_dns_response = \<lparr>skb_data =
       [0, 0, 0, 0, 0, 0,  0, 0, 0, 0, 0, 0,  0x08, 0x00,
        0x45, 0, 0, 73,  0, 0, 0, 0,  64, 17, 0, 0,  8, 8, 8, 8,  10, 0, 0, 1,
        0x00, 0x35,  0x14, 0xe9,  0, 53,  0, 0,
        0x12, 0x34,  0x81, 0x80,  0, 1,  0, 1,  0, 0,  0, 0,
        7, 0x65, 0x78, 0x61, 0x6d, 0x70, 0x6c, 0x65,  3, 0x63, 0x6f, 0x6d,  0,
        0, 1,  0, 1,
        0xc0, 0x0c,  0, 1,  0, 1,  0, 0, 1, 0x2c,  0, 4,  93, 184, 216, 34],
     skb_len = 87, skb_ifindex = 2, skb_mark = 0, skb_priority = 0, skb_queue_mapping = 0\<rparr>"

text \<open>The key under which the query is stored.\<close>

definition dns_key_query :: dns_key where
  "dns_key_query = \<lparr>dk_src_ip = 0x0100000a, dk_dst_ip = 0x08080808, dk_src_port = 0xe914,
                    dk_dst_port = 0x3500, dk_query_id = 0x1234, dk_pad = 0\<rparr>"

definition dns_maps0 :: dns_maps where
  "dns_maps0 = \<lparr>dns_queries = Map.empty, dns_responses = Map.empty, dns_stats = (\<lambda>i. 0),
                dns_events = []\<rparr>"

definition dns_event0 :: dns_event where
  "dns_event0 = \<lparr>de_timestamp = 0, de_pid = 0, de_tid = 0, de_src_ip = 0, de_dst_ip = 0,
                 de_src_port = 0, de_dst_port = 0, de_query_id = 0, de_is_response = 0,
                 de_query_type = 0, de_query_class = 0, de_response_code = 0,
                 de_answer_count = 0, de_domain = [], de_packet_size = 0,
                 de_response_time_ns = 0\<rparr>"

text \<open>An invocation at time \<open>t\<close> with room in the ring buffer, and one with none.\<close>

definition dns_env_free :: "u64 \<Rightarrow> dns_env" where
  "dns_env_free t = \<lparr>dns_t_packet = t, dns_t_event = t, dns_pid_tgid = 0,
                     dns_rb_slot = Some dns_event0\<rparr>"

definition dns_env_full :: "u64 \<Rightarrow> dns_env" where
  "dns_env_full t = (dns_env_free t)\<lparr>dns_rb_slot := None\<rparr>"

text \<open>
  A TLS 1.2 ClientHello from 10.0.0.1 port 49152 to 93.184.216.34 port 443: record header,
  handshake header, client version 3.3, 32 bytes of random (zero here), an empty session
  id, the single cipher suite 0x1301, the null compression method, and one extension, the
  server name example.org.
\<close>

definition skb_client_hello :: sk_buff where
  "skb_client_hello = \<lparr>skb_data =
       [0, 0, 0, 0, 0, 0,  0, 0, 0, 0, 0, 0,  0x08, 0x00,
        0x45, 0, 0, 112,  0, 0, 0, 0,  64, 6, 0, 0,  10, 0, 0, 1,  93, 184, 216, 34,
        0xc0, 0x00,  0x01, 0xbb,  0, 0, 0, 1,  0, 0, 0, 1,  0x50, 0x18,  0xff, 0xff,  0, 0,  0, 0,
        0x16, 0x03, 0x01, 0, 67,
        0x01, 0, 0, 63,
        0x03, 0x03,
        0, 0, 0, 0, 0, 0, 0, 0,  0, 0, 0, 0, 0, 0, 0, 0,
        0, 0, 0, 0, 0, 0, 0, 0,  0, 0, 0, 0, 0, 0, 0, 0,
        0,
        0, 2,  0x13, 0x01,
        1,  0,
        0, 20,
        0, 0,  0, 16,  0, 14,  0,  0, 11,
        0x65, 0x78, 0x61, 0x6d, 0x70, 0x6c, 0x65, 0x2e, 0x6f, 0x72, 0x67],
     skb_len = 126, skb_ifindex = 2, skb_mark = 0, skb_priority = 0, skb_queue_mapping = 0\<rparr>"

definition tls_key_hello :: tls_key where
  "tls_key_hello = \<lparr>tlk_src_ip = 0x0100000a, tlk_dst_ip = 0x22d8b85d, tlk_src_port = 0x00c0,
                    tlk_dst_port = 0xbb01\<rparr>"

definition tls_maps0 :: tls_maps where
  "tls_maps0 = \<lparr>tls_handshakes = Map.empty, tls_stats = (\<lambda>i. 0), tls_events = []\<rparr>"

definition tls_env_full :: "u64 \<Rightarrow> tls_env" where
  "tls_env_full t = \<lparr>tls_t_packet = t, tls_t_event = t, tls_pid_tgid = 0, tls_rb_slot = None\<rparr>"

section \<open>Properties of the DNS name parser\<close>

text \<open>One unfolding of the loop, when it ends and when it runs.\<close>

lemma parse_dns_name_loop_exit:
  "\<not> (pos < length data \<and> int (length name) < name_max - 1) \<Longrightarrow>
   parse_dns_name_loop data name_max pos name original_pos jumped jumps =
     \<lparr>dn_ret = int (length name), dn_pos = (if jumped then original_pos else pos),
      dn_name = name, dn_jumps = jumps\<rparr>"
  by (subst parse_dns_name_loop.simps) (simp only: if_False)

lemma parse_dns_name_loop_step:
  "pos < length data \<and> int (length name) < name_max - 1 \<Longrightarrow>
   parse_dns_name_loop data name_max pos name original_pos jumped jumps =
        (let len = data ! pos; pos1 = pos + 1
         in if len = 0 then
              \<lparr>dn_ret = int (length name),
               dn_pos = (if jumped then original_pos else pos1),
               dn_name = name, dn_jumps = jumps\<rparr>
            else if len AND 0xc0 = 0xc0 then
              (if pos1 \<ge> length data then
                 \<lparr>dn_ret = - 1, dn_pos = pos1, dn_name = name, dn_jumps = jumps\<rparr>
               else
                 (let original_pos' = (if \<not> jumped then pos1 + 1 else original_pos)
                  in if jumps > 5 then
                       \<lparr>dn_ret = - 1, dn_pos = pos1, dn_name = name, dn_jumps = jumps + 1\<rparr>
                     else
                       (let offset :: u16 = push_bit 8 (ucast (len AND 0x3f)) OR ucast (data ! pos1)
                        in parse_dns_name_loop data name_max (unat offset) name
                             original_pos' True (jumps + 1))))
            else if pos1 + unat len > length data then
              \<lparr>dn_ret = - 1, dn_pos = pos1, dn_name = name, dn_jumps = jumps\<rparr>
            else
              (let name1 = (if length name > 0 then name @ [0x2e] else name);
                   k = min (unat len) (nat (name_max - 1 - int (length name1)));
                   name2 = name1 @ map dns_printable (take k (drop pos1 data))
               in parse_dns_name_loop data name_max (pos1 + unat len) name2
                    original_pos jumped jumps))"
  by (subst parse_dns_name_loop.simps) (simp only: simp_thms if_True)

lemma parse_dns_name_loop_jump_cap:
  "jumps \<le> 6 \<Longrightarrow>
   dn_jumps (parse_dns_name_loop data name_max pos name original_pos jumped jumps) \<le> 7
   \<and> (dn_ret (parse_dns_name_loop data name_max pos name original_pos jumped jumps) < 0
        \<or> dn_jumps (parse_dns_name_loop data name_max pos name original_pos jumped jumps) \<le> 6)"
  (is "_ \<Longrightarrow> ?Q (parse_dns_name_loop data name_max pos name original_pos jumped jumps)")
proof (induction data name_max pos name original_pos jumped jumps rule: parse_dns_name_loop.induct)
  case (1 data name_max pos name original_pos jumped jumps)
  let ?Q = "\<lambda>r. dn_jumps r \<le> 7 \<and> (dn_ret r < 0 \<or> dn_jumps r \<le> 6)"
  show ?case
  proof (cases "pos < length data \<and> int (length name) < name_max - 1")
    case False
    show ?thesis unfolding parse_dns_name_loop_exit [OF False] using "1.prems" by simp
  next
    case c1: True
    have ih1: "data ! pos \<noteq> 0 \<Longrightarrow> data ! pos AND 0xc0 = 0xc0 \<Longrightarrow> \<not> length data \<le> pos + 1
                \<Longrightarrow> \<not> 5 < jumps \<Longrightarrow>
           ?Q (parse_dns_name_loop data name_max
              (unat (push_bit 8 (ucast (data ! pos AND 0x3f)) OR ucast (data ! (pos + 1)) :: u16))
              name (if \<not> jumped then pos + 1 + 1 else original_pos) True (jumps + 1))"
      using "1.IH"(1) c1 by simp
    have ih2: "data ! pos \<noteq> 0 \<Longrightarrow> data ! pos AND 0xc0 \<noteq> 0xc0
                \<Longrightarrow> \<not> length data < pos + 1 + unat (data ! pos) \<Longrightarrow>
           ?Q (parse_dns_name_loop data name_max (pos + 1 + unat (data ! pos))
              ((if length name > 0 then name @ [0x2e] else name) @ map dns_printable
                 (take (min (unat (data ! pos))
                          (nat (name_max - 1
                                - int (length (if length name > 0 then name @ [0x2e] else name)))))
                    (drop (pos + 1) data)))
              original_pos jumped jumps)"
      using "1.IH"(2) c1 "1.prems" by simp
    show ?thesis
      unfolding parse_dns_name_loop_step [OF c1] Let_def
      using ih1 ih2 "1.prems"
      by (auto simp del: parse_dns_name_loop.simps)
  qed
qed

text \<open>
  Whatever the buffer, \<open>parse_dns_name\<close> follows at most six pointers when it returns a
  name, and gives up on the seventh.
\<close>

lemma parse_dns_name_jump_cap:
  "dn_jumps (parse_dns_name data pos name_max) \<le> 7
   \<and> (dn_ret (parse_dns_name data pos name_max) < 0
        \<or> dn_jumps (parse_dns_name data pos name_max) \<le> 6)"
  unfolding parse_dns_name_def by (rule parse_dns_name_loop_jump_cap) simp

text \<open>
  C4. The claim is that decompression follows at most 5 compression pointers and that a
  pointer offset outside the buffer makes parsing fail. The guard \<open>jumps++ > 5\<close> compares
  the counter before incrementing it, so a chain of six pointers is followed and the name
  behind it is returned; and a pointer whose offset lies beyond the buffer only ends the
  loop, so the parser returns the (empty) name with a non-negative result.
\<close>

theorem parse_dns_name_follows_six_jumps:
  "parse_dns_name [1, 97, 0, 0xc0, 0, 0xc0, 3, 0xc0, 5, 0xc0, 7, 0xc0, 9, 0xc0, 11] 13 253
     = \<lparr>dn_ret = 1, dn_pos = 15, dn_name = [97], dn_jumps = 6\<rparr>
   \<and> parse_dns_name [0xc0, 0xff] 0 253
     = \<lparr>dn_ret = 0, dn_pos = 2, dn_name = [], dn_jumps = 1\<rparr>"
  by code_simp

section \<open>Properties of the DHCP option scanner\<close>

lemma clamp_unat:
  fixes opt_len :: u8
  assumes "0 \<le> max_len"
  shows "unat (if uint opt_len > max_len then word_of_int max_len else opt_len)
         = min (unat opt_len) (nat max_len)"
proof (cases "uint opt_len > max_len")
  case True
  have lt: "max_len < 256" using True uint_lt2p [of opt_len] by simp
  have "uint (word_of_int max_len :: u8) = max_len"
    using assms lt by (simp add: uint_word_of_int take_bit_int_eq_self)
  hence "unat (word_of_int max_len :: u8) = nat max_len"
    by (simp only: unat_eq_nat_uint)
  moreover have "nat max_len \<le> unat opt_len"
    using True by (simp add: unat_eq_nat_uint del: nat_uint_eq)
  ultimately show ?thesis using True by (simp add: min_def)
next
  case False
  hence "unat opt_len \<le> nat max_len" by (simp add: unat_eq_nat_uint del: nat_uint_eq)
  thus ?thesis using False by (simp add: min_def)
qed

lemma parse_dhcp_options_match_step:
  assumes "pos + 2 \<le> length data" and "data ! pos = option_type" and "option_type \<noteq> 255"
  shows "parse_dhcp_options data pos option_type max_len =
     (let c = (if uint (data ! (pos + 1)) > max_len then word_of_int max_len else data ! (pos + 1))
      in if pos + 2 + unat c \<le> length data
         then (uint c, pos + 2, Some (take (unat c) (drop (pos + 2) data)))
         else parse_dhcp_options data (pos + 2 + unat c) option_type max_len)"
  using assms
  by (subst parse_dhcp_options.simps) (simp add: Let_def del: parse_dhcp_options.simps)

lemma parse_dhcp_options_past_end:
  "length data < pos + 2 \<Longrightarrow> parse_dhcp_options data pos option_type max_len = (- 1, pos, None)"
  by (subst parse_dhcp_options.simps) (simp del: parse_dhcp_options.simps)

text \<open>
  C8, as the claim states it, fails: a host-name option (12) declaring 10 value bytes when
  only 3 remain in the buffer is not truncated to the 3 bytes; nothing is extracted and the
  scan returns -1.
\<close>

theorem parse_dhcp_options_overlong_counterexample:
  "parse_dhcp_options [12, 10, 97, 98, 99] 0 12 63 = (- 1, 12, None)"
  by code_simp

text \<open>
  C8, amended. When the option at the cursor has the requested type, its declared length
  is clamped to the caller's \<open>max_len\<close> (the capacity of the destination), not to the
  remaining buffer. If the clamped length fits in the remaining buffer, that many bytes
  are extracted and the clamped length is returned with the cursor at the value; if it
  does not fit, the option is skipped, the cursor moves past the end and the scan returns
  -1 with nothing extracted.
\<close>

theorem parse_dhcp_options_clamps_to_max_len:
  assumes "pos + 2 \<le> length data" and "data ! pos = option_type" and "option_type \<noteq> 255"
    and "0 \<le> max_len"
  shows "parse_dhcp_options data pos option_type max_len =
     (let l = min (unat (data ! (pos + 1))) (nat max_len)
      in if pos + 2 + l \<le> length data
         then (int l, pos + 2, Some (take l (drop (pos + 2) data)))
         else (- 1, pos + 2 + l, None))"
proof -
  define c :: u8 where
    "c = (if uint (data ! (pos + 1)) > max_len then word_of_int max_len else data ! (pos + 1))"
  have c: "unat c = min (unat (data ! (pos + 1))) (nat max_len)"
    unfolding c_def using assms(4) by (rule clamp_unat)
  have u: "uint c = int (unat c)" by simp
  have step: "parse_dhcp_options data pos option_type max_len =
      (if pos + 2 + unat c \<le> length data
         then (uint c, pos + 2, Some (take (unat c) (drop (pos + 2) data)))
         else parse_dhcp_options data (pos + 2 + unat c) option_type max_len)"
    using parse_dhcp_options_match_step [OF assms(1-3), of max_len]
    unfolding c_def Let_def .
  show ?thesis
  proof (cases "pos + 2 + unat c \<le> length data")
    case True
    thus ?thesis unfolding step Let_def c [symmetric] u by simp
  next
    case False
    hence "length data < pos + 2 + unat c + 2" by simp
    hence "parse_dhcp_options data (pos + 2 + unat c) option_type max_len
             = (- 1, pos + 2 + unat c, None)"
      by (rule parse_dhcp_options_past_end)
    thus ?thesis using False unfolding step Let_def c [symmetric] by simp
  qed
qed

theorem parse_dhcp_options_clamps_to_max_len_witness:
  "parse_dhcp_options [53, 200, 5, 98, 99] 0 53 1 = (1, 2, Some [5]) \<and>
   parse_dhcp_options [12, 10, 97, 98, 99] 0 12 63 = (- 1, 12, None)"
  using parse_dhcp_options_clamps_to_max_len [of 0 "[53, 200, 5, 98, 99]" 53 1]
        parse_dhcp_options_clamps_to_max_len [of 0 "[12, 10, 97, 98, 99]" 12 63]
  by (simp add: Let_def)

section \<open>Properties of the XDP program\<close>

subsection \<open>Byte order of the fragment test\<close>

lemma le16_and: fixes a b c d :: u8
  shows "(ucast a OR push_bit 8 (ucast b)) AND (ucast c OR push_bit 8 (ucast d))
         = (ucast (a AND c) OR push_bit 8 (ucast (b AND d)) :: u16)"
  by (rule bit_word_eqI) (auto simp add: bit_simps dest: bit_imp_le_length)

lemma le16_zero: fixes x y :: u8
  shows "(ucast x OR push_bit 8 (ucast y) :: u16) = 0 \<longleftrightarrow> x = 0 \<and> y = 0"
proof
  assume h: "(ucast x OR push_bit 8 (ucast y) :: u16) = 0"
  have "x = 0"
  proof (rule bit_word_eqI)
    fix n assume "n < LENGTH(8)"
    hence "bit (ucast x OR push_bit 8 (ucast y) :: u16) n = bit x n"
      by (auto simp add: bit_simps)
    thus "bit x n = bit (0::u8) n" using h by simp
  qed
  moreover have "y = 0"
  proof (rule bit_word_eqI)
    fix n assume "n < LENGTH(8)"
    hence "bit (ucast x OR push_bit 8 (ucast y) :: u16) (n + 8) = bit y n"
      by (auto simp add: bit_simps dest: bit_imp_le_length)
    thus "bit y n = bit (0::u8) n" using h by simp
  qed
  ultimately show "x = 0 \<and> y = 0" by simp
qed simp

lemma be16_zero: fixes x y :: u8
  shows "(push_bit 8 (ucast x) OR ucast y :: u16) = 0 \<longleftrightarrow> x = 0 \<and> y = 0"
  using le16_zero [of y x] by (auto simp add: or.commute)

lemma be16_and: fixes a b c d :: u8
  shows "(push_bit 8 (ucast a) OR ucast b) AND (push_bit 8 (ucast c) OR ucast d)
         = (push_bit 8 (ucast (a AND c)) OR ucast (b AND d) :: u16)"
  using le16_and [of b a d c] by (simp add: or.commute)

lemma frag_test_network_order:
  "(ip_frag_off p AND htons 0x3fff = 0) \<longleftrightarrow> (be16 (p ! 20) (p ! 21) AND 0x3fff = 0)"
proof -
  have m: "bswap16 0x3fff = 0xff3f" by (simp add: bswap16_def)
  have mask_le: "(0xff3f :: u16) = ucast (0x3f :: u8) OR push_bit 8 (ucast (0xff :: u8))" by simp
  have mask_be: "(0x3fff :: u16) = push_bit 8 (ucast (0x3f :: u8)) OR ucast (0xff :: u8)" by simp
  have "(ip_frag_off p AND htons 0x3fff = 0) \<longleftrightarrow> ((p ! 20) AND 0x3f = 0 \<and> (p ! 21) AND 0xff = 0)"
    unfolding ip_frag_off_def load16_def m mask_le le16_and le16_zero by simp
  also have "\<dots> \<longleftrightarrow> (be16 (p ! 20) (p ! 21) AND 0x3fff = 0)"
    unfolding be16_def mask_be be16_and be16_zero by simp
  finally show ?thesis .
qed

lemma fragment_fields_mask:
  "(ip_fragment_offset p \<noteq> 0 \<or> ip_more_fragments p) \<longleftrightarrow> be16 (p ! 20) (p ! 21) AND 0x3fff \<noteq> 0"
proof -
  have "(0x3fff :: u16) = 0x1fff OR 0x2000" by simp
  hence "be16 (p ! 20) (p ! 21) AND 0x3fff
           = (be16 (p ! 20) (p ! 21) AND 0x1fff) OR (be16 (p ! 20) (p ! 21) AND 0x2000)"
    by (simp only: bit.conj_disj_distrib)
  thus ?thesis by (auto simp add: ip_fragment_offset_def ip_more_fragments_def or_eq_0_iff)
qed

text \<open>
  C10. An IPv4 packet with a nonzero fragment offset or the more-fragments flag is passed
  by the XDP program with every map left as it was: the blocklist is not consulted (the
  result does not depend on it), the rate limiter and the flow table are not updated, no
  counter moves and no event is emitted. The statement needs no other assumption on the
  packet, since every test before the fragment test passes the packet untouched as well.
\<close>

theorem xdp_fragment_passes_untouched:
  assumes "ip_fragment_offset pkt \<noteq> 0 \<or> ip_more_fragments pkt"
  shows "xdp_blocklist_prog env pkt m = (XDP_PASS, m)"
proof -
  have "ip_frag_off pkt AND htons 0x3fff \<noteq> 0"
    using assms fragment_fields_mask [of pkt] frag_test_network_order [of pkt] by blast
  thus ?thesis by (simp add: xdp_blocklist_prog_def)
qed

theorem xdp_fragment_passes_untouched_witness:
  "ip_more_fragments pkt_icmp_fragment
   \<and> is_ip_blocked (ip_blocklist xdp_maps_blocked) (ip_saddr pkt_icmp_fragment)
   \<and> eth_h_proto pkt_icmp_fragment = htons ETH_P_IP
   \<and> xdp_blocklist_prog (env_free 1000) pkt_icmp_fragment xdp_maps_blocked
       = (XDP_PASS, xdp_maps_blocked)"
proof -
  have f: "ip_more_fragments pkt_icmp_fragment" by code_simp
  have b: "is_ip_blocked (ip_blocklist xdp_maps_blocked) (ip_saddr pkt_icmp_fragment)" by code_simp
  have e: "eth_h_proto pkt_icmp_fragment = htons ETH_P_IP" by code_simp
  show ?thesis
    using f b e xdp_fragment_passes_untouched [of pkt_icmp_fragment "env_free 1000" xdp_maps_blocked]
    by simp
qed


subsection \<open>The flow table after the flow stage\<close>

lemma flow_map_update_statistics [simp]:
  "flow_map (update_statistics a b c m) = flow_map m"
  by (simp add: update_statistics_def Let_def)

lemma flow_map_send_event [simp]:
  "flow_map (send_event env ty s d sp dp pr dat n m) = flow_map m"
  by (simp add: send_event_def Let_def split: option.splits)

lemma xdp_flow_stage_flow_map:
  "flow_map (snd (xdp_flow_stage env key len m)) =
     (case flow_map m key of
        None \<Rightarrow> (flow_map m)(key \<mapsto>
           \<lparr>xs_verdict = of_nat XDP_PASS, xs_qos_profile = 0, xs_flags = 0,
            xs_packet_count = 1, xs_byte_count = ucast len, xs_last_seen = t_now env,
            xs_created_at = t_created env, xs_expires_at = t_expires env + FLOW_TIMEOUT_NS\<rparr>)
      | Some st \<Rightarrow> (flow_map m)(key \<mapsto>
           st\<lparr>xs_packet_count := xs_packet_count st + 1,
              xs_byte_count := xs_byte_count st + ucast len,
              xs_last_seen := t_now env,
              xs_flags := (if xs_packet_count st + 1 > 100 \<and> xs_flags st AND TRUSTED_FLOW_FLAG = 0
                           then xs_flags st OR TRUSTED_FLOW_FLAG else xs_flags st)\<rparr>))"
  by (simp add: xdp_flow_stage_def get_or_create_flow_def bpf_map_update_elem_def Let_def
           split: option.splits)

lemma xdp_flow_stage_new_passes:
  assumes "flow_map m key = None"
  shows "fst (xdp_flow_stage env key len m) = XDP_PASS"
  using assms
  by (simp add: xdp_flow_stage_def get_or_create_flow_def bpf_map_update_elem_def Let_def)

subsection \<open>Flow creation\<close>

text \<open>
  C2, as the claim states it, fails. The first packet of a flow makes the XDP program
  create the flow state with \<open>verdict = XDP_PASS\<close>, the number 2. That is not
  \<open>VERDICT_UNKNOWN\<close> (0); in the encoding of tc\_offload.c the number 2 is
  \<open>VERDICT_DROP\<close>.
\<close>

theorem new_flow_verdict_counterexample:
  "flow_map xdp_maps0 key_icmp = None
   \<and> flow_map (snd (xdp_blocklist_prog (env_full 1000) pkt_icmp xdp_maps0)) key_icmp
       = Some \<lparr>xs_verdict = 2, xs_qos_profile = 0, xs_flags = 0, xs_packet_count = 1,
               xs_byte_count = 20, xs_last_seen = 1000, xs_created_at = 1000,
               xs_expires_at = 300000001000\<rparr>
   \<and> ucast (xs_verdict (the (flow_map
         (snd (xdp_blocklist_prog (env_full 1000) pkt_icmp xdp_maps0)) key_icmp)))
       = VERDICT_DROP
   \<and> ucast (xs_verdict (the (flow_map
         (snd (xdp_blocklist_prog (env_full 1000) pkt_icmp xdp_maps0)) key_icmp)))
       \<noteq> VERDICT_UNKNOWN"
  by code_simp

text \<open>
  C2, amended. For a key with no flow state, \<open>get_or_create_flow\<close> inserts and returns a
  state whose verdict is \<open>XDP_PASS\<close>, the pass verdict of the XDP program that creates it:
  it is not \<open>XDP_DROP\<close>, the one verdict the XDP program's check acts on, it is not
  \<open>VERDICT_TRUSTED\<close>, and the state carries no trusted flag and no packets yet. The
  flow stage of the program, which applies the verdict check, passes the packet.
\<close>

theorem get_or_create_flow_new_verdict:
  assumes "flow_map m key = None"
  shows "(\<exists>st. get_or_create_flow env (flow_map m) key = (Some st, (flow_map m)(key \<mapsto> st))
           \<and> xs_verdict st = of_nat XDP_PASS
           \<and> xs_verdict st \<noteq> of_nat XDP_DROP
           \<and> ucast (xs_verdict st) \<noteq> VERDICT_TRUSTED
           \<and> xs_flags st AND TRUSTED_FLOW_FLAG = 0
           \<and> xs_packet_count st = 0)
         \<and> fst (xdp_flow_stage env key len m) = XDP_PASS"
  using assms xdp_flow_stage_new_passes [OF assms]
  by (simp add: get_or_create_flow_def bpf_map_update_elem_def Let_def VERDICT_TRUSTED_def)

theorem get_or_create_flow_new_verdict_witness:
  "flow_map xdp_maps0 key_icmp = None
   \<and> (\<exists>st. get_or_create_flow (env_full 1000) (flow_map xdp_maps0) key_icmp
              = (Some st, (flow_map xdp_maps0)(key_icmp \<mapsto> st))
           \<and> xs_verdict st = of_nat XDP_PASS
           \<and> xs_verdict st \<noteq> of_nat XDP_DROP
           \<and> ucast (xs_verdict st) \<noteq> VERDICT_TRUSTED
           \<and> xs_flags st AND TRUSTED_FLOW_FLAG = 0
           \<and> xs_packet_count st = 0)
   \<and> fst (xdp_flow_stage (env_full 1000) key_icmp 20 xdp_maps0) = XDP_PASS"
proof -
  have h: "flow_map xdp_maps0 key_icmp = None" by (simp add: xdp_maps0_def)
  show ?thesis
    using h get_or_create_flow_new_verdict
            [where m = xdp_maps0 and key = key_icmp and env = "env_full 1000" and len = 20]
    by simp
qed

subsection \<open>Expiry\<close>

text \<open>
  C6, as the claim states it, fails. A flow state whose \<open>expires_at\<close> lies in the past is
  found by the lookup of \<open>get_or_create_flow\<close> like any other: the XDP program goes on
  counting on it (packet 101 of the old flow, with its old \<open>created_at\<close>) instead of
  treating the flow as new.
\<close>

theorem expired_flow_still_found_counterexample:
  "is_expired 400000000000 (xs_expires_at flow_100)
   \<and> fst (get_or_create_flow (env_full 400000000000) (flow_map xdp_maps_flow) key_icmp)
       = Some flow_100
   \<and> flow_map (snd (xdp_blocklist_prog (env_full 400000000000) pkt_icmp xdp_maps_flow)) key_icmp
       = Some \<lparr>xs_verdict = 2, xs_qos_profile = 0, xs_flags = 1, xs_packet_count = 101,
               xs_byte_count = 2020, xs_last_seen = 400000000000, xs_created_at = 1,
               xs_expires_at = 300000000001\<rparr>"
  by code_simp

text \<open>
  C6, amended. A store lookup returns the entry stored under the key whatever its
  \<open>expires_at\<close>: \<open>get_or_create_flow\<close> returns an existing flow state as it is and
  leaves the map alone, and the flow stage counts the packet on that state, keeping its
  \<open>created_at\<close> and \<open>expires_at\<close>. (\<open>expires_at\<close> is written when a flow is created
  and \<open>is_expired\<close> compares it with the clock, but no lookup calls \<open>is_expired\<close>.)
\<close>

theorem lookup_ignores_expires_at:
  assumes "flow_map m key = Some st"
  shows "get_or_create_flow env (flow_map m) key = (Some st, flow_map m)
         \<and> (\<exists>st'. flow_map (snd (xdp_flow_stage env key len m)) key = Some st'
                 \<and> xs_packet_count st' = xs_packet_count st + 1
                 \<and> xs_created_at st' = xs_created_at st
                 \<and> xs_expires_at st' = xs_expires_at st)"
  using assms by (simp add: get_or_create_flow_def xdp_flow_stage_flow_map)

theorem lookup_ignores_expires_at_witness:
  "flow_map xdp_maps_flow key_icmp = Some flow_100
   \<and> is_expired (t_now (env_full 400000000000)) (xs_expires_at flow_100)
   \<and> get_or_create_flow (env_full 400000000000) (flow_map xdp_maps_flow) key_icmp
       = (Some flow_100, flow_map xdp_maps_flow)
   \<and> (\<exists>st'. flow_map (snd (xdp_flow_stage (env_full 400000000000) key_icmp 20 xdp_maps_flow))
                key_icmp = Some st'
           \<and> xs_packet_count st' = xs_packet_count flow_100 + 1
           \<and> xs_created_at st' = xs_created_at flow_100
           \<and> xs_expires_at st' = xs_expires_at flow_100)"
proof -
  have h: "flow_map xdp_maps_flow key_icmp = Some flow_100"
    by (simp add: xdp_maps_flow_def xdp_maps0_def)
  have e: "is_expired (t_now (env_full 400000000000)) (xs_expires_at flow_100)" by code_simp
  show ?thesis
    using h e lookup_ignores_expires_at
              [where m = xdp_maps_flow and key = key_icmp and st = flow_100
                 and env = "env_full 400000000000" and len = 20]
    by simp
qed

subsection \<open>Rate limiter\<close>

text \<open>
  \<open>rate_limit_check\<close> on its own admits a packet exactly when no timestamp is stored for
  the address or the stored one is at least a window old, and an admission stores the
  current time; called again 1 ms later it rejects, and 1.1 s later it admits.
\<close>

lemma rate_limit_check_admits_iff:
  "fst (rate_limit_check now bl ip) = 1 \<longleftrightarrow>
     (bl ip = None \<or> (\<exists>last. bl ip = Some last \<and> now - last \<ge> RATE_LIMIT_WINDOW_NS))"
  by (auto simp add: rate_limit_check_def Let_def not_less split: option.splits)

lemma rate_limit_check_records:
  "fst (rate_limit_check now bl ip) = 1 \<Longrightarrow> snd (rate_limit_check now bl ip) = bl(ip \<mapsto> now)"
  by (auto simp add: rate_limit_check_def Let_def bpf_map_update_elem_def
           split: option.splits if_splits)

lemma rate_limit_check_window:
  assumes "fst (rate_limit_check t bl ip) = 1"
  shows "fst (rate_limit_check (t + 1000000) (snd (rate_limit_check t bl ip)) ip) = 0"
    and "fst (rate_limit_check (t + 1100000000) (snd (rate_limit_check t bl ip)) ip) = 1"
proof -
  have s: "snd (rate_limit_check t bl ip) = bl(ip \<mapsto> t)"
    using assms by (rule rate_limit_check_records)
  show "fst (rate_limit_check (t + 1000000) (snd (rate_limit_check t bl ip)) ip) = 0"
    unfolding s by (simp add: rate_limit_check_def)
  show "fst (rate_limit_check (t + 1100000000) (snd (rate_limit_check t bl ip)) ip) = 1"
    unfolding s by (simp add: rate_limit_check_def Let_def bpf_map_update_elem_def)
qed

text \<open>
  C5. The rate limiter keeps its timestamps in \<open>ip_blocklist\<close>, the map that
  \<open>is_ip_blocked\<close> reads as the blocklist. A first packet from 10.0.0.1 at 5 s is
  admitted and passed, and its time is stored under the address. For a second packet
  1.1 s later \<open>rate_limit_check\<close> would answer 1, but the program never asks: the
  blocklist test finds the stored timestamp and the packet is dropped.
\<close>

theorem rate_limiter_blocklists_sender:
  "fst (xdp_blocklist_prog (env_full 5000000000) pkt_icmp xdp_maps0) = XDP_PASS
   \<and> ip_blocklist (snd (xdp_blocklist_prog (env_full 5000000000) pkt_icmp xdp_maps0))
        (ip_saddr pkt_icmp) = Some 5000000000
   \<and> fst (rate_limit_check 6100000000
            (ip_blocklist (snd (xdp_blocklist_prog (env_full 5000000000) pkt_icmp xdp_maps0)))
            (ip_saddr pkt_icmp)) = 1
   \<and> fst (xdp_blocklist_prog (env_full 6100000000) pkt_icmp
            (snd (xdp_blocklist_prog (env_full 5000000000) pkt_icmp xdp_maps0))) = XDP_DROP"
  by code_simp

subsection \<open>Event emission\<close>

text \<open>
  C7. A packet from a blocklisted address makes the XDP program emit an alert. When the
  ring buffer is full, \<open>send_event\<close> returns without an event and without counting the
  loss: the statistics are exactly those of \<open>update_statistics\<close>, the same as when the
  reservation succeeds. (The DNS, TLS and DHCP filters count the loss in \<open>STAT_ERRORS\<close>.)
\<close>

theorem xdp_send_event_failure_uncounted:
  "fst (xdp_blocklist_prog (env_full 1000) pkt_icmp xdp_maps_blocked) = XDP_DROP
   \<and> events (snd (xdp_blocklist_prog (env_full 1000) pkt_icmp xdp_maps_blocked)) = []
   \<and> length (events (snd (xdp_blocklist_prog (env_free 1000) pkt_icmp xdp_maps_blocked))) = 1
   \<and> stats (snd (xdp_blocklist_prog (env_full 1000) pkt_icmp xdp_maps_blocked))
       = \<lparr>packets_processed = 1, packets_dropped = 1, packets_passed = 0,
          bytes_processed = 20, blocked_ips = 0, blocked_dns = 0, flows_offloaded = 0,
          events_generated = 0, last_cleanup = 0\<rparr>
   \<and> stats (snd (xdp_blocklist_prog (env_full 1000) pkt_icmp xdp_maps_blocked))
       = stats (snd (xdp_blocklist_prog (env_free 1000) pkt_icmp xdp_maps_blocked))"
  by code_simp

subsection \<open>Verdicts, the offload threshold and the fast path\<close>

lemma xdp_flow_stage_keeps_verdict:
  assumes "flow_map m k = Some st"
  shows "\<exists>st'. flow_map (snd (xdp_flow_stage env key len m)) k = Some st'
           \<and> xs_verdict st' = xs_verdict st"
  using assms by (cases "k = key") (simp_all add: xdp_flow_stage_flow_map split: option.splits)

lemma xdp_l4_stage_keeps_verdict:
  assumes "flow_map m k = Some st"
  shows "\<exists>st'. flow_map (snd (xdp_l4_stage env pkt s d m)) k = Some st'
           \<and> xs_verdict st' = xs_verdict st"
  using assms by (simp add: xdp_l4_stage_def Let_def xdp_flow_stage_keeps_verdict)

lemma xdp_blocklist_prog_keeps_verdict:
  assumes "flow_map m k = Some st"
  shows "\<exists>st'. flow_map (snd (xdp_blocklist_prog env pkt m)) k = Some st'
           \<and> xs_verdict st' = xs_verdict st"
proof -
  have *: "\<And>bl. flow_map (m\<lparr>ip_blocklist := bl\<rparr>) k = Some st" using assms by simp
  show ?thesis
    using assms by (simp add: xdp_blocklist_prog_def Let_def xdp_l4_stage_keeps_verdict [OF *])
qed

lemma xdp_flow_stage_offload:
  assumes "flow_map m key = Some st"
  shows "flows_offloaded (stats (snd (xdp_flow_stage env key len m))) =
           (if xs_packet_count st + 1 > 100 \<and> xs_flags st AND TRUSTED_FLOW_FLAG = 0
            then flows_offloaded (stats m) + 1 else flows_offloaded (stats m))"
  using assms
  by (simp add: xdp_flow_stage_def get_or_create_flow_def Let_def update_statistics_def)

lemma tc_fast_path_keeps_verdict:
  assumes "tc_flow_map m k = Some st"
  shows "\<exists>st'. tc_flow_map (snd (snd (tc_fast_path now skb m))) k = Some st'
           \<and> ts_verdict st' = ts_verdict st"
  using assms
  by (auto simp add: tc_fast_path_def Let_def update_stats_def split: option.splits)

lemma tc_fast_path_trusted:
  assumes "extract_flow_key skb = Some key" and "tc_flow_map m key = Some st"
    and "ts_verdict st = VERDICT_TRUSTED"
  shows "fst (tc_fast_path now skb m) = TC_ACT_OK"
    and "skb_mark (fst (snd (tc_fast_path now skb m))) AND NFQUEUE_BYPASS_MARK = NFQUEUE_BYPASS_MARK"
    and "ts_qos_profile st \<noteq> QOS_PROFILE_DEFAULT \<and> unat (ts_qos_profile st) < 16 \<longrightarrow>
         skb_priority (fst (snd (tc_fast_path now skb m)))
           = ucast (qp_priority (qos_profiles m (ts_qos_profile st)))"
  using assms
  by (simp_all add: tc_fast_path_def Let_def apply_qos_def array_lookup_def update_stats_def
        NFQUEUE_BYPASS_MARK_def word_bw_assocs)

text \<open>
  C3, as the claim states it, fails. When the XDP program processes packet 101 of a flow
  it sets bit \<open>TRUSTED_FLOW_FLAG\<close> of \<open>flags\<close>; the verdict stays \<open>XDP_PASS\<close>. At
  the TC hook the 101st packet of a flow whose verdict is \<open>VERDICT_UNKNOWN\<close> leaves the
  verdict unknown and the packet unmarked.
\<close>

theorem threshold_sets_flag_not_verdict_counterexample:
  "xs_packet_count flow_100 = 100
   \<and> flow_map (snd (xdp_blocklist_prog (env_full 5000) pkt_icmp xdp_maps_flow)) key_icmp
       = Some (flow_100\<lparr>xs_flags := 1, xs_packet_count := 101, xs_byte_count := 2020,
                        xs_last_seen := 5000\<rparr>)
   \<and> xs_verdict flow_100 = of_nat XDP_PASS
   \<and> ts_packet_count (tc_flow VERDICT_UNKNOWN 0) = 100
   \<and> tc_flow_map (snd (snd (tc_fast_path 5000 skb_icmp (tc_maps_flow VERDICT_UNKNOWN 0)))) tc_key_icmp
       = Some ((tc_flow VERDICT_UNKNOWN 0)\<lparr>ts_packet_count := 101, ts_byte_count := 3434,
                                          ts_last_seen := 5100\<rparr>)
   \<and> skb_mark (fst (snd (tc_fast_path 5000 skb_icmp (tc_maps_flow VERDICT_UNKNOWN 0)))) = 0"
  by code_simp

text \<open>
  C3, amended. Neither program changes the verdict of a flow. When a packet takes a
  flow's \<open>packet_count\<close> above 100 and the flow is not yet flagged, the XDP program sets
  \<open>TRUSTED_FLOW_FLAG\<close> in the flow's \<open>flags\<close>; up to 100 packets the flags stay as they
  are. At the TC hook every packet of a flow whose verdict is \<open>VERDICT_TRUSTED\<close> is
  accepted and carries the bypass mark, and when the flow's QoS profile is not the default
  one and lies in the 16-entry profile table, the packet's priority is that profile's.
\<close>

theorem threshold_flag_and_trusted_fast_path:
  "(flow_map m k = Some st \<longrightarrow>
      (\<exists>st'. flow_map (snd (xdp_blocklist_prog env pkt m)) k = Some st'
             \<and> xs_verdict st' = xs_verdict st))
   \<and> (flow_map m k = Some st \<longrightarrow>
      flow_map (snd (xdp_flow_stage env k len m)) k =
        Some (st\<lparr>xs_packet_count := xs_packet_count st + 1,
                 xs_byte_count := xs_byte_count st + ucast len,
                 xs_last_seen := t_now env,
                 xs_flags := (if xs_packet_count st + 1 > 100
                                 \<and> xs_flags st AND TRUSTED_FLOW_FLAG = 0
                              then xs_flags st OR TRUSTED_FLOW_FLAG else xs_flags st)\<rparr>))
   \<and> (tc_flow_map tm tk = Some tst \<longrightarrow>
      (\<exists>tst'. tc_flow_map (snd (snd (tc_fast_path now skb tm))) tk = Some tst'
              \<and> ts_verdict tst' = ts_verdict tst))
   \<and> (extract_flow_key skb = Some tk \<and> tc_flow_map tm tk = Some tst
        \<and> ts_verdict tst = VERDICT_TRUSTED \<longrightarrow>
      fst (tc_fast_path now skb tm) = TC_ACT_OK
      \<and> skb_mark (fst (snd (tc_fast_path now skb tm))) AND NFQUEUE_BYPASS_MARK
            = NFQUEUE_BYPASS_MARK
      \<and> (ts_qos_profile tst \<noteq> QOS_PROFILE_DEFAULT \<and> unat (ts_qos_profile tst) < 16 \<longrightarrow>
           skb_priority (fst (snd (tc_fast_path now skb tm)))
             = ucast (qp_priority (qos_profiles tm (ts_qos_profile tst)))))"
proof (intro conjI impI)
  assume "flow_map m k = Some st"
  thus "\<exists>st'. flow_map (snd (xdp_blocklist_prog env pkt m)) k = Some st'
             \<and> xs_verdict st' = xs_verdict st"
    by (rule xdp_blocklist_prog_keeps_verdict)
next
  assume "flow_map m k = Some st"
  thus "flow_map (snd (xdp_flow_stage env k len m)) k =
        Some (st\<lparr>xs_packet_count := xs_packet_count st + 1,
                 xs_byte_count := xs_byte_count st + ucast len,
                 xs_last_seen := t_now env,
                 xs_flags := (if xs_packet_count st + 1 > 100
                                 \<and> xs_flags st AND TRUSTED_FLOW_FLAG = 0
                              then xs_flags st OR TRUSTED_FLOW_FLAG else xs_flags st)\<rparr>)"
    by (simp add: xdp_flow_stage_flow_map)
next
  assume "tc_flow_map tm tk = Some tst"
  thus "\<exists>tst'. tc_flow_map (snd (snd (tc_fast_path now skb tm))) tk = Some tst'
              \<and> ts_verdict tst' = ts_verdict tst"
    by (rule tc_fast_path_keeps_verdict)
next
  assume h: "extract_flow_key skb = Some tk \<and> tc_flow_map tm tk = Some tst
        \<and> ts_verdict tst = VERDICT_TRUSTED"
  show "fst (tc_fast_path now skb tm) = TC_ACT_OK"
    using h tc_fast_path_trusted(1) by blast
next
  assume h: "extract_flow_key skb = Some tk \<and> tc_flow_map tm tk = Some tst
        \<and> ts_verdict tst = VERDICT_TRUSTED"
  show "skb_mark (fst (snd (tc_fast_path now skb tm))) AND NFQUEUE_BYPASS_MARK
            = NFQUEUE_BYPASS_MARK"
    using h tc_fast_path_trusted(2) by blast
next
  assume h: "extract_flow_key skb = Some tk \<and> tc_flow_map tm tk = Some tst
        \<and> ts_verdict tst = VERDICT_TRUSTED"
    and q: "ts_qos_profile tst \<noteq> QOS_PROFILE_DEFAULT \<and> unat (ts_qos_profile tst) < 16"
  show "skb_priority (fst (snd (tc_fast_path now skb tm)))
             = ucast (qp_priority (qos_profiles tm (ts_qos_profile tst)))"
    using h q tc_fast_path_trusted(3) by blast
qed

theorem threshold_flag_and_trusted_fast_path_witness:
  "flow_map xdp_maps_flow key_icmp = Some flow_100
   \<and> xs_packet_count flow_100 = 100
   \<and> (\<exists>st'. flow_map (snd (xdp_blocklist_prog (env_full 5000) pkt_icmp xdp_maps_flow)) key_icmp
                = Some st' \<and> xs_verdict st' = xs_verdict flow_100)
   \<and> flow_map (snd (xdp_flow_stage (env_full 5000) key_icmp 20 xdp_maps_flow)) key_icmp
       = Some (flow_100\<lparr>xs_packet_count := 101, xs_byte_count := 2020, xs_last_seen := 5000,
                        xs_flags := 1\<rparr>)
   \<and> extract_flow_key skb_icmp = Some tc_key_icmp
   \<and> tc_flow_map (tc_maps_flow VERDICT_TRUSTED 4) tc_key_icmp = Some (tc_flow VERDICT_TRUSTED 4)
   \<and> (\<exists>tst'. tc_flow_map (snd (snd (tc_fast_path 5000 skb_icmp (tc_maps_flow VERDICT_TRUSTED 4))))
                  tc_key_icmp = Some tst' \<and> ts_verdict tst' = VERDICT_TRUSTED)
   \<and> fst (tc_fast_path 5000 skb_icmp (tc_maps_flow VERDICT_TRUSTED 4)) = TC_ACT_OK
   \<and> skb_mark (fst (snd (tc_fast_path 5000 skb_icmp (tc_maps_flow VERDICT_TRUSTED 4))))
         AND NFQUEUE_BYPASS_MARK = NFQUEUE_BYPASS_MARK
   \<and> skb_priority (fst (snd (tc_fast_path 5000 skb_icmp (tc_maps_flow VERDICT_TRUSTED 4)))) = 6"
proof -
  have a: "flow_map xdp_maps_flow key_icmp = Some flow_100"
    by (simp add: xdp_maps_flow_def xdp_maps0_def)
  have b: "extract_flow_key skb_icmp = Some tc_key_icmp" by code_simp
  have c: "tc_flow_map (tc_maps_flow VERDICT_TRUSTED 4) tc_key_icmp = Some (tc_flow VERDICT_TRUSTED 4)"
    by (simp add: tc_maps_flow_def)
  have d: "ts_verdict (tc_flow VERDICT_TRUSTED 4) = VERDICT_TRUSTED"
    "ts_qos_profile (tc_flow VERDICT_TRUSTED 4) = 4"
    "qp_priority (qos_profiles (tc_maps_flow VERDICT_TRUSTED 4) 4) = 6"
    by (simp_all add: tc_flow_def tc_maps_flow_def)
  have e: "xs_packet_count flow_100 = 100" "xs_byte_count flow_100 = 2000" "xs_flags flow_100 = 0"
    "t_now (env_full 5000) = 5000"
    by (simp_all add: flow_100_def env_full_def)
  show ?thesis
    using a b c d e
      threshold_flag_and_trusted_fast_path
        [where m = xdp_maps_flow and k = key_icmp and st = flow_100 and env = "env_full 5000"
           and pkt = pkt_icmp and len = 20 and tm = "tc_maps_flow VERDICT_TRUSTED 4"
           and tk = tc_key_icmp and tst = "tc_flow VERDICT_TRUSTED 4" and skb = skb_icmp
           and now = 5000]
    by simp
qed


section \<open>Properties of the DNS socket filter\<close>

lemma dns_queries_increment [simp]:
  "dns_queries (dns_increment_stat i m) = dns_queries m"
  by (simp add: dns_increment_stat_def split: option.splits)

lemma dns_queries_send [simp]:
  "dns_queries (send_dns_event env key qi ri r m) = dns_queries m"
  by (simp add: send_dns_event_def Let_def split: option.splits)

text \<open>
  The filter writes and deletes in \<open>dns_queries\<close> only under the processed packet's own
  key: an entry whose source address is not the packet's is left as it is, whatever the
  packet.
\<close>

lemma dns_socket_filter_other_source_untouched:
  assumes "dk_src_ip k \<noteq> ip_saddr (skb_data skb)"
  shows "dns_queries (snd (dns_socket_filter ed env skb m)) k = dns_queries m k"
proof -
  have ne: "\<And>a b c d e. k \<noteq> \<lparr>dk_src_ip = ip_saddr (skb_data skb), dk_dst_ip = a, dk_src_port = b,
               dk_dst_port = c, dk_query_id = d, dk_pad = e\<rparr>"
    using assms by auto
  show ?thesis
    by (simp add: dns_socket_filter_def Let_def bpf_map_update_elem_def bpf_map_delete_elem_def ne)
qed

text \<open>
  C1. (\<open>parse_dns_name\<close> stands in for the helper \<open>extract_domain\<close>.) A query for
  example.com is stored at time 1000. The response at time 3000 finds it
  under the reversed key and reports a response time of 2000. The clean-up then deletes
  under \<open>key\<close>, the response's own key, not under \<open>lookup_key\<close>: the stored query is
  still there, and a second identical response at time 7000 matches it again and reports
  6000.
\<close>

theorem dns_response_leaves_query_stored:
  "dns_queries (snd (dns_socket_filter parse_dns_name (dns_env_free 1000) skb_dns_query dns_maps0))
     dns_key_query
     = Some \<lparr>dq_domain = [0x65, 0x78, 0x61, 0x6d, 0x70, 0x6c, 0x65, 0x2e, 0x63, 0x6f, 0x6d],
             dq_query_type = 1, dq_query_class = 1, dq_packet_size = 71, dq_timestamp = 1000\<rparr>
   \<and> map de_response_time_ns (dns_events (snd (dns_socket_filter parse_dns_name
         (dns_env_free 3000) skb_dns_response
         (snd (dns_socket_filter parse_dns_name (dns_env_free 1000) skb_dns_query dns_maps0)))))
     = [0, 2000]
   \<and> dns_queries (snd (dns_socket_filter parse_dns_name (dns_env_free 3000) skb_dns_response
         (snd (dns_socket_filter parse_dns_name (dns_env_free 1000) skb_dns_query dns_maps0))))
       dns_key_query
     = Some \<lparr>dq_domain = [0x65, 0x78, 0x61, 0x6d, 0x70, 0x6c, 0x65, 0x2e, 0x63, 0x6f, 0x6d],
             dq_query_type = 1, dq_query_class = 1, dq_packet_size = 71, dq_timestamp = 1000\<rparr>
   \<and> map de_response_time_ns (dns_events (snd (dns_socket_filter parse_dns_name
         (dns_env_free 7000) skb_dns_response
         (snd (dns_socket_filter parse_dns_name (dns_env_free 3000) skb_dns_response
         (snd (dns_socket_filter parse_dns_name (dns_env_free 1000) skb_dns_query dns_maps0)))))))
     = [0, 2000, 6000]"
  by code_simp

text \<open>
  When the ring buffer is full, the DNS and TLS filters drop the event and add one to their
  \<open>STAT_ERRORS\<close> counter; \<open>send_event\<close> of the XDP program changes nothing at all.
\<close>

lemma send_dns_event_full_counts_error:
  assumes "dns_rb_slot env = None"
  shows "dns_stats (send_dns_event env key qi ri is_response m) =
           (dns_stats m)(DNS_STAT_ERRORS := dns_stats m DNS_STAT_ERRORS + 1)"
    and "dns_events (send_dns_event env key qi ri is_response m) = dns_events m"
  using assms
  by (simp_all add: send_dns_event_def dns_increment_stat_def array_lookup_def)

lemma send_tls_event_full_counts_error:
  assumes "tls_rb_slot env = None"
  shows "tls_stats (send_tls_event env skb key info m) =
           (tls_stats m)(TLS_STAT_ERRORS := tls_stats m TLS_STAT_ERRORS + 1)"
    and "tls_events (send_tls_event env skb key info m) = tls_events m"
  using assms
  by (simp_all add: send_tls_event_def tls_increment_stat_def array_lookup_def)

lemma send_event_full_counts_nothing:
  assumes "rb_slot env = None"
  shows "send_event env ty s d sp dp pr dat n m = m"
  using assms by (simp add: send_event_def)

section \<open>Properties of the TLS socket filter\<close>

lemma produce_ja3_hash_cipher [simp]:
  "th_cipher_suite (produce_ja3_hash info) = th_cipher_suite info"
  by (simp add: produce_ja3_hash_def Let_def)

lemma tls_handshakes_increment [simp]:
  "tls_handshakes (tls_increment_stat i m) = tls_handshakes m"
  by (simp add: tls_increment_stat_def split: option.splits)

lemma tls_handshakes_send [simp]:
  "tls_handshakes (send_tls_event env skb key info m) = tls_handshakes m"
  by (simp add: send_tls_event_def split: option.splits)

text \<open>Every record the filter stores has cipher suite 0, whatever the packet.\<close>

lemma tls_socket_filter_cipher_suite_zero:
  assumes "tls_socket_filter env skb m = Some (r, m')"
    and "tls_handshakes m' k = Some info" and "tls_handshakes m k \<noteq> Some info"
  shows "th_cipher_suite info = 0"
  using assms
  by (auto simp add: tls_socket_filter_def Let_def bpf_map_update_elem_def
           split: if_splits sni_result.splits)

text \<open>
  C9. For a ClientHello that offers cipher suite 0x1301 and names example.org, the stored
  record has the record-layer version 0x0301 and the time stamp, but cipher suite 0 (the
  member is never assigned) and an empty server name: \<open>parse_tls_sni\<close> takes the byte
  after the handshake header for the session-id length, although the client version and
  the 32 random bytes come first, and so never reaches the extensions. The fingerprint is
  computed from these values.
\<close>

theorem client_hello_cipher_suite_not_stored:
  "map_option fst (tls_socket_filter (tls_env_full 1000) skb_client_hello tls_maps0) = Some 0
   \<and> tls_handshakes (snd (the (tls_socket_filter (tls_env_full 1000) skb_client_hello tls_maps0)))
       tls_key_hello
     = Some \<lparr>th_version = 0x0301, th_cipher_suite = 0, th_sni = replicate 64 0,
             th_ja3_hash = [0x0301, 0, 0, 0], th_timestamp = 1000\<rparr>"
  by code_simp

end
